theory Spec2Isabelle
  imports Main "HOL-Library.Word" "HOL-Library.Sublist" "HOL-Library.Multiset"
begin

unbundle bit_operations_syntax

section \<open>The host language: strings, numbers, dates, objects\<close>

text \<open>
  The component under study is \<^verbatim>\<open>src/src/TrafficAnalytics.tsx\<close>. Its three pieces of
  algorithmic content are \<^verbatim>\<open>generateColorFromString\<close> (lines 61-82),
  \<^verbatim>\<open>generateChartSeries\<close> (lines 116-133) and the \<^verbatim>\<open>chartData\<close> reduction
  (lines 135-158). This section models the parts of ECMAScript those three functions
  rest on; the next sections embed the functions themselves.

  A string is its sequence of UTF-16 code units, which is what \<^verbatim>\<open>str.length\<close> counts
  and \<^verbatim>\<open>str.charCodeAt(i)\<close> reads. \<open>js\<close> writes an ASCII literal.
\<close>

type_synonym js_string = "16 word list"

definition js :: "string \<Rightarrow> js_string" where
  "js s = map of_char s"

text \<open>
  Numbers. But for one product, every number the three functions compute is an integer
  far below \<open>2^53\<close> in magnitude (for the hash: as long as the string is shorter than
  \<open>2^21\<close> code units), so the doubles of the source are exact and are modelled as
  \<open>int\<close>; \<open>NaN\<close> is the value \<open>None\<close> of an option. The bitwise operators first convert an operand to a
  signed 32-bit integer (ToInt32) and return one; \<^verbatim>\<open>+\<close> and \<^verbatim>\<open>-\<close> do not wrap.
\<close>

definition ToInt32 :: "int \<Rightarrow> 32 word" where
  "ToInt32 v = word_of_int v"

definition js_shl :: "int \<Rightarrow> nat \<Rightarrow> int" where
  \<comment> \<open>\<^verbatim>\<open>v << n\<close>\<close>
  "js_shl v n = sint (push_bit n (ToInt32 v))"

definition js_sar :: "int \<Rightarrow> nat \<Rightarrow> int" where
  \<comment> \<open>\<^verbatim>\<open>v >> n\<close>, sign-propagating\<close>
  "js_sar v n = sint (signed_drop_bit n (ToInt32 v))"

definition js_and :: "int \<Rightarrow> int \<Rightarrow> int" where
  \<comment> \<open>\<^verbatim>\<open>v & m\<close>\<close>
  "js_and v m = sint (ToInt32 v AND ToInt32 m)"

definition js_rem :: "int \<Rightarrow> int \<Rightarrow> int" where
  \<comment> \<open>\<^verbatim>\<open>a % b\<close> on integers: the sign of the dividend\<close>
  "js_rem a b = sgn a * (\<bar>a\<bar> mod \<bar>b\<bar>)"

text \<open>
  \<^verbatim>\<open>Math.floor(v * 1.2)\<close> is the one place where a double is not an integer. The literal
  \<^verbatim>\<open>1.2\<close> is the binary64 number \<open>5404319552844595 / 2^52\<close>, slightly below 1.2, and the
  product is the exact product rounded to 53 significant bits, to nearest, ties to even.
  For an integer \<open>v\<close> the exact product \<open>p / 2^52\<close> is 0 or at least 1 in magnitude, so
  its binary exponent \<open>e\<close> is that of its integer part; the rounded product is
  \<open>round (p / 2^e) * 2^e / 2^52\<close>, kept here as its numerator over \<open>2^52\<close>.
\<close>

definition round_half_even :: "int \<Rightarrow> int \<Rightarrow> int" where
  \<comment> \<open>the integer nearest to \<open>a / b\<close> for \<open>b > 0\<close>, ties to even\<close>
  "round_half_even a b =
     (let q = a div b; r = a mod b
      in if 2 * r < b then q else if b < 2 * r then q + 1 else if even q then q else q + 1)"

fun floor_log2 :: "nat \<Rightarrow> nat" where
  "floor_log2 n = (if n < 2 then 0 else Suc (floor_log2 (n div 2)))"

declare floor_log2.simps [simp del]

definition double_1_2 :: int where
  \<comment> \<open>the double \<^verbatim>\<open>1.2\<close>, times \<open>2^52\<close>\<close>
  "double_1_2 = 5404319552844595"

definition times_1_2 :: "int \<Rightarrow> int" where
  \<comment> \<open>the double \<^verbatim>\<open>v * 1.2\<close>, times \<open>2^52\<close>\<close>
  "times_1_2 v =
     (let p = \<bar>v\<bar> * double_1_2;
          e = floor_log2 (nat (p div 2 ^ 52))
      in sgn v * (round_half_even p (2 ^ e) * 2 ^ e))"

definition floor_times_1_2 :: "int \<Rightarrow> int" where
  \<comment> \<open>\<^verbatim>\<open>Math.floor(v * 1.2)\<close>\<close>
  "floor_times_1_2 v = times_1_2 v div 2 ^ 52"

definition hex_digit :: "nat \<Rightarrow> 16 word" where
  \<comment> \<open>the code unit of a lowercase hexadecimal digit\<close>
  "hex_digit d = (if d < 10 then 48 + of_nat d else 87 + of_nat d)"

fun hex_digits :: "nat \<Rightarrow> js_string" where
  "hex_digits n = (if n < 16 then [hex_digit n] else hex_digits (n div 16) @ [hex_digit (n mod 16)])"

declare hex_digits.simps [simp del]

definition toString16 :: "int \<Rightarrow> js_string" where
  \<comment> \<open>\<^verbatim>\<open>v.toString(16)\<close> for an integer\<close>
  "toString16 v = (if v < 0 then js ''-'' @ hex_digits (nat (- v)) else hex_digits (nat v))"

definition padStart :: "nat \<Rightarrow> js_string \<Rightarrow> js_string \<Rightarrow> js_string" where
  \<comment> \<open>\<^verbatim>\<open>s.padStart(n, fill)\<close> for a fill string of one code unit\<close>
  "padStart n fill s = concat (replicate (n - length s) fill) @ s"

text \<open>
  Dates. What \<^verbatim>\<open>new Date(s)\<close> makes of a string, the offset of local time and the
  clock belong to the host, so they are parameters: \<open>Date_parse\<close> is the time value in
  milliseconds since the epoch, \<open>None\<close> for an invalid date (\<open>NaN\<close>); \<open>LocalTZA t\<close> is the
  offset of local time at the instant \<open>t\<close>; \<open>Date_now n\<close> is what the call number \<open>n\<close>
  of \<^verbatim>\<open>Date.now()\<close> returns in a build, counted from 0 (nothing is assumed of the readings).
  \<^verbatim>\<open>getDay\<close> is ECMAScript's \<open>WeekDay(LocalTime(t)) = (floor(local / msPerDay) + 4) mod 7\<close>,
  Sunday being 0, and \<open>NaN\<close> for an invalid date.
\<close>

record js_env =
  Date_parse :: "js_string \<Rightarrow> int option"
  LocalTZA :: "int \<Rightarrow> int"
  Date_now :: "nat \<Rightarrow> int"

definition msPerDay :: int where
  "msPerDay = 86400000"

definition WeekDay :: "int \<Rightarrow> int" where
  "WeekDay t = (t div msPerDay + 4) mod 7"

definition Date_getTime :: "js_env \<Rightarrow> js_string \<Rightarrow> int option" where
  \<comment> \<open>\<^verbatim>\<open>new Date(s).getTime()\<close>\<close>
  "Date_getTime env s = Date_parse env s"

definition Date_getDay :: "js_env \<Rightarrow> js_string \<Rightarrow> int option" where
  \<comment> \<open>\<^verbatim>\<open>new Date(s).getDay()\<close>\<close>
  "Date_getDay env s =
     (case Date_parse env s of None \<Rightarrow> None | Some t \<Rightarrow> Some (WeekDay (t + LocalTZA env t)))"

text \<open>
  Objects used as dictionaries. \<^verbatim>\<open>acc\<close> in \<^verbatim>\<open>chartData\<close> starts as \<^verbatim>\<open>{}\<close>, an ordinary
  object whose prototype is \<^verbatim>\<open>Object.prototype\<close>. Its own properties are an association
  list in creation order. Reading \<^verbatim>\<open>acc[k]\<close> finds an own property first, then a
  property of the prototype; the standard ones are all functions or objects, hence
  truthy, and none of them has a property \<^verbatim>\<open>data\<close>.
\<close>

definition Object_prototype_keys :: "js_string list" where
  "Object_prototype_keys = map js
     [''constructor'', ''__defineGetter__'', ''__defineSetter__'', ''hasOwnProperty'',
      ''__lookupGetter__'', ''__lookupSetter__'', ''isPrototypeOf'', ''propertyIsEnumerable'',
      ''toString'', ''valueOf'', ''__proto__'', ''toLocaleString'']"

datatype 'a js_lookup = Undefined | Inherited | Own 'a

definition in_prototype :: "js_string \<Rightarrow> bool" where
  "in_prototype k = List.member Object_prototype_keys k"

definition get_prop :: "(js_string \<times> 'a) list \<Rightarrow> js_string \<Rightarrow> 'a js_lookup" where
  "get_prop obj k =
     (case map_of obj k of
        Some v \<Rightarrow> Own v
      | None \<Rightarrow> if in_prototype k then Inherited else Undefined)"

definition create_prop :: "(js_string \<times> 'a) list \<Rightarrow> js_string \<Rightarrow> 'a \<Rightarrow> (js_string \<times> 'a) list" where
  \<comment> \<open>\<^verbatim>\<open>obj[k] = v\<close> for a key that is not an own property yet\<close>
  "create_prop obj k v = obj @ [(k, v)]"

definition update_prop :: "(js_string \<times> 'a) list \<Rightarrow> js_string \<Rightarrow> 'a \<Rightarrow> (js_string \<times> 'a) list" where
  \<comment> \<open>the object after the value under the own key \<open>k\<close> was mutated into \<open>v\<close>: the key
      keeps its place\<close>
  "update_prop obj k v = map (\<lambda>p. if fst p = k then (k, v) else p) obj"

text \<open>
  \<^verbatim>\<open>Object.values\<close> lists the own properties in the order of OrdinaryOwnPropertyKeys:
  first the keys that are array indices (the canonical decimal form of an integer from
  0 to \<open>2^32 - 2\<close>), in ascending numeric order, then every other string key in creation
  order.
\<close>

definition is_digit :: "16 word \<Rightarrow> bool" where
  "is_digit c = (48 \<le> c \<and> c \<le> 57)"

definition decimal_value :: "js_string \<Rightarrow> int" where
  "decimal_value s = foldl (\<lambda>n c. 10 * n + (uint c - 48)) 0 s"

definition is_array_index :: "js_string \<Rightarrow> bool" where
  "is_array_index s =
     (s \<noteq> [] \<and> list_all is_digit s \<and> (length s = 1 \<or> hd s \<noteq> 48) \<and> decimal_value s \<le> 4294967294)"

definition own_property_order :: "(js_string \<times> 'a) list \<Rightarrow> (js_string \<times> 'a) list" where
  "own_property_order obj =
     sort_key (\<lambda>p. decimal_value (fst p)) (filter (\<lambda>p. is_array_index (fst p)) obj)
     @ filter (\<lambda>p. \<not> is_array_index (fst p)) obj"

definition Object_values :: "(js_string \<times> 'a) list \<Rightarrow> 'a list" where
  "Object_values obj = map snd (own_property_order obj)"

datatype js_error = TypeError

section \<open>The data\<close>

text \<open>The interface \<^verbatim>\<open>GameData\<close> (lines 7-12); \<^verbatim>\<open>end_time\<close> is a string or \<^verbatim>\<open>null\<close>.\<close>

record GameData =
  instance_name :: js_string
  category_name :: js_string
  start_time :: js_string
  end_time :: "js_string option"

text \<open>
  Both charts are fed objects \<^verbatim>\<open>{ name, data }\<close>. For the weekly chart \<^verbatim>\<open>data\<close> is
  \<^verbatim>\<open>Array(7).fill(0)\<close>: seven numeric slots. An array is an object too, and
  \<^verbatim>\<open>data[NaN] += 1\<close> gives it a property named \<^verbatim>\<open>"NaN"\<close> (holding \<open>NaN\<close>) beside the slots,
  without touching its length; \<open>NaN_prop\<close> records whether that property exists.
  For the timeline \<^verbatim>\<open>data\<close> is the list of points \<^verbatim>\<open>{ x, y: [start, end], color }\<close>; the
  fields of a point are named \<open>pt_x\<close>, \<open>pt_y\<close>, \<open>pt_color\<close> here, and the two-element array
  \<^verbatim>\<open>y\<close> is a pair.
\<close>

record week_array =
  slots :: "int list"
  NaN_prop :: bool

record 'a serie =
  name :: js_string
  data :: 'a

record point =
  pt_x :: js_string
  pt_y :: "int \<times> int"
  pt_color :: js_string

section \<open>ColorAssigner: \<^verbatim>\<open>generateColorFromString\<close>\<close>

definition hash_step :: "int \<Rightarrow> 16 word \<Rightarrow> int" where
  \<comment> \<open>the loop body: \<^verbatim>\<open>hash = str.charCodeAt(i) + ((hash << 5) - hash)\<close>\<close>
  "hash_step hash c = uint c + (js_shl hash 5 - hash)"

definition generateColorFromString :: "js_string \<Rightarrow> js_string" where
  "generateColorFromString str =
     (let hash = foldl hash_step 0 str;
          r = js_rem (js_and hash 255) 256;
          g = js_rem (js_and (js_sar hash 8) 255) 256;
          b = js_rem (js_and (js_sar hash 16) 255) 256;
          newR = min 255 (floor_times_1_2 r);
          newG = min 255 (floor_times_1_2 g);
          newB = min 255 (floor_times_1_2 b);
          color = js ''#'' @ padStart 2 (js ''0'') (toString16 newR)
                           @ padStart 2 (js ''0'') (toString16 newG)
                           @ padStart 2 (js ''0'') (toString16 newB)
      in color)"

text \<open>
  The colour map. \<^verbatim>\<open>fetchCategories\<close> (lines 50-53) folds the fetched category names into a
  plain object, \<^verbatim>\<open>acc[category] = generateColorFromString(category)\<close>. The assignment
  creates an own property, or overwrites the one there is; on the key \<^verbatim>\<open>"__proto__"\<close> it
  calls the setter of \<^verbatim>\<open>Object.prototype\<close>, which ignores a string.
\<close>

definition set_prop :: "(js_string \<times> 'a) list \<Rightarrow> js_string \<Rightarrow> 'a \<Rightarrow> (js_string \<times> 'a) list" where
  \<comment> \<open>\<^verbatim>\<open>obj[k] = v\<close> for a primitive value \<open>v\<close>\<close>
  "set_prop obj k v =
     (if k = js ''__proto__'' then obj
      else if List.member (map fst obj) k then update_prop obj k v
      else create_prop obj k v)"

definition fetchCategories_colors :: "js_string list \<Rightarrow> (js_string \<times> js_string) list" where
  \<comment> \<open>lines 50-53: the object handed to \<^verbatim>\<open>setCategoryColors\<close>\<close>
  "fetchCategories_colors fetchedCategories =
     foldl (\<lambda>acc category. set_prop acc category (generateColorFromString category)) [] fetchedCategories"

section \<open>WeeklyAggregator: \<^verbatim>\<open>generateChartSeries\<close>\<close>

fun indexOf_from :: "'a list \<Rightarrow> 'a \<Rightarrow> int \<Rightarrow> int" where
  "indexOf_from [] v i = - 1"
| "indexOf_from (u # us) v i = (if u = v then i else indexOf_from us v (i + 1))"

definition indexOf :: "'a list \<Rightarrow> 'a \<Rightarrow> int" where
  \<comment> \<open>\<^verbatim>\<open>xs.indexOf(v)\<close>: the first index holding \<open>v\<close>, or \<open>-1\<close>\<close>
  "indexOf us v = indexOf_from us v 0"

definition adjustedDay :: "int option \<Rightarrow> int option" where
  \<comment> \<open>\<^verbatim>\<open>day === 0 ? 6 : day - 1\<close>; \<open>NaN - 1\<close> is \<open>NaN\<close>\<close>
  "adjustedDay day = (case day of None \<Rightarrow> None | Some d \<Rightarrow> Some (if d = 0 then 6 else d - 1))"

definition increment :: "int option \<Rightarrow> week_array \<Rightarrow> week_array" where
  \<comment> \<open>\<^verbatim>\<open>data[k] += 1\<close>. For \<open>k = NaN\<close> the property \<^verbatim>\<open>"NaN"\<close> is set to \<open>undefined + 1 = NaN\<close>.
      Otherwise \<open>k\<close> is one of the indices 0 to 6 of the array (lemma \<open>adjustedDay_range\<close>)
      and that slot is replaced.\<close>
  "increment k arr =
     (case k of
        None \<Rightarrow> arr\<lparr>NaN_prop := True\<rparr>
      | Some i \<Rightarrow> arr\<lparr>slots := (slots arr)[nat i := slots arr ! nat i + 1]\<rparr>)"

definition count_game :: "js_env \<Rightarrow> js_string list \<Rightarrow> week_array serie list \<Rightarrow> GameData \<Rightarrow> week_array serie list" where
  \<comment> \<open>the body of \<^verbatim>\<open>data.forEach\<close> (lines 122-130)\<close>
  "count_game env categories series game =
     (let day = Date_getDay env (start_time game);
          categoryIndex = indexOf categories (category_name game);
          adjusted = adjustedDay day
      in if categoryIndex \<noteq> - 1
         then series[nat categoryIndex :=
                (series ! nat categoryIndex)\<lparr>data := increment adjusted (data (series ! nat categoryIndex))\<rparr>]
         else series)"

definition initial_series :: "js_string list \<Rightarrow> week_array serie list" where
  \<comment> \<open>lines 117-120\<close>
  "initial_series categories =
     map (\<lambda>category. \<lparr>name = category, data = \<lparr>slots = replicate 7 0, NaN_prop = False\<rparr>\<rparr>) categories"

definition weekly_counts :: "js_env \<Rightarrow> js_string list \<Rightarrow> GameData list \<Rightarrow> week_array serie list" where
  \<comment> \<open>\<^verbatim>\<open>series\<close> when \<^verbatim>\<open>forEach\<close> has run\<close>
  "weekly_counts env categories games = foldl (count_game env categories) (initial_series categories) games"

definition has_positive :: "week_array serie \<Rightarrow> bool" where
  \<comment> \<open>\<^verbatim>\<open>serie.data.some(value => value > 0)\<close>: \<^verbatim>\<open>some\<close> visits the indices below the length\<close>
  "has_positive s = list_ex (\<lambda>v. v > 0) (slots (data s))"

definition generateChartSeries :: "js_env \<Rightarrow> js_string list \<Rightarrow> GameData list \<Rightarrow> week_array serie list" where
  \<comment> \<open>the list handed to \<^verbatim>\<open>setChartSeries\<close>; \<^verbatim>\<open>categories\<close> is the component's state\<close>
  "generateChartSeries env categories games = filter has_positive (weekly_counts env categories games)"

section \<open>TimelineBuilder: \<^verbatim>\<open>chartData\<close>\<close>

definition startTime :: "js_env \<Rightarrow> GameData \<Rightarrow> int option" where
  \<comment> \<open>line 139\<close>
  "startTime env game = Date_getTime env (start_time game)"

definition endTime :: "js_env \<Rightarrow> nat \<Rightarrow> GameData \<Rightarrow> int option \<times> nat" where
  \<comment> \<open>line 140: \<^verbatim>\<open>end_time ? new Date(end_time).getTime() : Date.now()\<close>; \<^verbatim>\<open>null\<close> and the
      empty string are falsy. The clock is read in the callback, once for every record
      with a falsy \<^verbatim>\<open>end_time\<close>: \<open>calls\<close> counts the readings made so far in the build, and
      the result carries the new count.\<close>
  "endTime env calls game =
     (case end_time game of
        None \<Rightarrow> (Some (Date_now env calls), Suc calls)
      | Some s \<Rightarrow> if s = [] then (Some (Date_now env calls), Suc calls)
                  else (Date_getTime env s, calls))"

definition color_of :: "(js_string \<rightharpoonup> js_string) \<Rightarrow> js_string \<Rightarrow> js_string" where
  \<comment> \<open>line 152: \<^verbatim>\<open>categoryColors[category] || '#CCCCCC'\<close>, for a category that is no property of
      \<^verbatim>\<open>Object.prototype\<close> (for one that is, line 149 has thrown before)\<close>
  "color_of categoryColors category =
     (case categoryColors category of
        None \<Rightarrow> js ''#CCCCCC''
      | Some c \<Rightarrow> if c = [] then js ''#CCCCCC'' else c)"

type_synonym timeline_acc = "(js_string \<times> point list serie) list"

definition reducer :: "js_env \<Rightarrow> (js_string \<rightharpoonup> js_string) \<Rightarrow> timeline_acc \<times> nat \<Rightarrow> GameData \<Rightarrow> js_error + timeline_acc \<times> nat" where
  \<comment> \<open>the callback of \<^verbatim>\<open>trafficData.reduce\<close> (lines 135-158), on the accumulator and the
      number of clock readings made so far. \<^verbatim>\<open>!acc[category]\<close> holds only when the lookup
      is undefined; \<^verbatim>\<open>acc[category].data.push\<close> throws a TypeError when \<^verbatim>\<open>acc[category]\<close> is
      a property of the prototype, whose \<^verbatim>\<open>data\<close> is undefined. \<^verbatim>\<open>console.warn\<close> is not
      modelled.\<close>
  "reducer env categoryColors state game =
     (let acc = fst state;
          category = category_name game;
          instance = instance_name game;
          start = startTime env game;
          ending = endTime env (snd state) game;
          acc1 = (if get_prop acc category = Undefined
                  then create_prop acc category \<lparr>name = category, data = []\<rparr>
                  else acc)
      in case (start, fst ending) of
           (Some st, Some en) \<Rightarrow>
             (case get_prop acc1 category of
                Own bucket \<Rightarrow>
                  Inr (update_prop acc1 category
                         (bucket\<lparr>data := data bucket @
                            [\<lparr>pt_x = instance, pt_y = (st, en),
                              pt_color = color_of categoryColors category\<rparr>]\<rparr>),
                       snd ending)
              | _ \<Rightarrow> Inl TypeError)
         | _ \<Rightarrow> Inr (acc1, snd ending))"

fun reduce :: "('a \<Rightarrow> 'b \<Rightarrow> js_error + 'a) \<Rightarrow> 'b list \<Rightarrow> 'a \<Rightarrow> js_error + 'a" where
  "reduce f [] acc = Inr acc"
| "reduce f (v # vs) acc = (case f acc v of Inl e \<Rightarrow> Inl e | Inr acc' \<Rightarrow> reduce f vs acc')"

definition chartData :: "js_env \<Rightarrow> (js_string \<rightharpoonup> js_string) \<Rightarrow> GameData list \<Rightarrow> js_error + point list serie list" where
  "chartData env categoryColors trafficData =
     (case reduce (reducer env categoryColors) trafficData ([], 0) of
        Inl e \<Rightarrow> Inl e
      | Inr state \<Rightarrow> Inr (Object_values (fst state)))"

section \<open>Vocabulary of the properties, and a concrete host\<close>

text \<open>
  The weekday counts of a series are its name and its seven slots, without the stray
  \<^verbatim>\<open>"NaN"\<close> property. A list of series is well formed for a category list when it has one
  series per category, in order, each with seven slots and none of them negative.
\<close>

definition weekday_counts :: "week_array serie \<Rightarrow> js_string \<times> int list" where
  "weekday_counts s = (name s, slots (data s))"

definition well_formed :: "js_string list \<Rightarrow> week_array serie list \<Rightarrow> bool" where
  "well_formed categories series =
     (map name series = categories
      \<and> list_all (\<lambda>s. length (slots (data s)) = 7 \<and> list_all (\<lambda>v. 0 \<le> v) (slots (data s))) series)"

text \<open>
  For the timeline. A record is ongoing when its \<^verbatim>\<open>end_time\<close> is falsy, \<^verbatim>\<open>null\<close> or the
  empty string: its end is read from the clock. \<open>timed env calls games\<close> pairs every record
  of a batch with its resolved end, for a reduction that has read the clock \<open>calls\<close> times
  before; in a build, the ongoing record that has \<open>n\<close> ongoing records before it gets the
  reading number \<open>n\<close>. A timed record is valid when both of its resolved times are numbers,
  and then it has an interval. A reading of the clock is always a number, so whether a
  record is valid does not depend on the readings: \<open>valid_game\<close> asks it of the record
  alone. The intervals of a category are those of its valid records, in the order of the
  batch. \<open>first_occurrences\<close> keeps the first copy of every element, and \<open>key_order\<close> is the
  order in which an object lists such keys. \<open>timeline_of\<close> is the accumulator these
  describe: one bucket for every category of the batch that is no property of
  \<^verbatim>\<open>Object.prototype\<close>. A record makes the reduction throw when it is valid and its
  category is such a property: it collides with the prototype.
\<close>

definition ongoing :: "GameData \<Rightarrow> bool" where
  "ongoing game = (end_time game = None \<or> end_time game = Some [])"

fun timed :: "js_env \<Rightarrow> nat \<Rightarrow> GameData list \<Rightarrow> (GameData \<times> int option) list" where
  "timed env calls [] = []"
| "timed env calls (game # games) =
     (game, fst (endTime env calls game)) # timed env (snd (endTime env calls game)) games"

definition valid_record :: "js_env \<Rightarrow> GameData \<times> int option \<Rightarrow> bool" where
  "valid_record env tg = (startTime env (fst tg) \<noteq> None \<and> snd tg \<noteq> None)"

definition valid_game :: "js_env \<Rightarrow> GameData \<Rightarrow> bool" where
  "valid_game env game = valid_record env (game, fst (endTime env 0 game))"

definition collides :: "js_env \<Rightarrow> GameData \<Rightarrow> bool" where
  "collides env game = (valid_game env game \<and> in_prototype (category_name game))"

definition interval_of :: "js_env \<Rightarrow> (js_string \<rightharpoonup> js_string) \<Rightarrow> GameData \<times> int option \<Rightarrow> point option" where
  "interval_of env categoryColors tg =
     (case (startTime env (fst tg), snd tg) of
        (Some st, Some en) \<Rightarrow>
          Some \<lparr>pt_x = instance_name (fst tg), pt_y = (st, en),
                pt_color = color_of categoryColors (category_name (fst tg))\<rparr>
      | _ \<Rightarrow> None)"

definition intervals_of :: "js_env \<Rightarrow> (js_string \<rightharpoonup> js_string) \<Rightarrow> js_string \<Rightarrow> (GameData \<times> int option) list \<Rightarrow> point list" where
  "intervals_of env categoryColors k tgs =
     List.map_filter (interval_of env categoryColors) (filter (\<lambda>tg. category_name (fst tg) = k) tgs)"

definition first_occurrences :: "'a list \<Rightarrow> 'a list" where
  "first_occurrences vs = rev (remdups (rev vs))"

definition bucket_of :: "js_env \<Rightarrow> (js_string \<rightharpoonup> js_string) \<Rightarrow> (GameData \<times> int option) list \<Rightarrow> js_string \<Rightarrow> point list serie" where
  "bucket_of env categoryColors tgs k = \<lparr>name = k, data = intervals_of env categoryColors k tgs\<rparr>"

definition timeline_of :: "js_env \<Rightarrow> (js_string \<rightharpoonup> js_string) \<Rightarrow> (GameData \<times> int option) list \<Rightarrow> timeline_acc" where
  "timeline_of env categoryColors tgs =
     map (\<lambda>k. (k, bucket_of env categoryColors tgs k))
       (first_occurrences (filter (\<lambda>k. \<not> in_prototype k) (map (\<lambda>tg. category_name (fst tg)) tgs)))"

definition key_order :: "js_string list \<Rightarrow> js_string list" where
  "key_order ks = sort_key decimal_value (filter is_array_index ks) @ filter (\<lambda>k. \<not> is_array_index k) ks"

definition throws :: "js_env \<Rightarrow> GameData \<times> int option \<Rightarrow> bool" where
  "throws env tg = (valid_record env tg \<and> in_prototype (category_name (fst tg)))"

text \<open>
  A host for evaluating the functions on concrete batches: local time is UTC, the clock
  reads 2024-01-03T12:00:00Z at the first call in a build and a millisecond more at every
  further call, and \<open>Date_parse\<close> is tabulated on the three timestamps
  the examples use (3 January 2024 is a Wednesday, 7 January a Sunday); every other string
  of the examples is one that no ECMAScript host parses as a date.
\<close>

definition example_env :: js_env where
  "example_env =
     \<lparr>Date_parse = map_of
        [(js ''2024-01-03T10:00:00Z'', 1704276000000),
         (js ''2024-01-03T11:30:00Z'', 1704281400000),
         (js ''2024-01-07T09:00:00Z'', 1704618000000)],
      LocalTZA = (\<lambda>t. 0),
      Date_now = (\<lambda>n. 1704283200000 + int n)\<rparr>"

definition example_game :: "string \<Rightarrow> string \<Rightarrow> string \<Rightarrow> string option \<Rightarrow> GameData" where
  "example_game i c s e =
     \<lparr>instance_name = js i, category_name = js c, start_time = js s, end_time = map_option js e\<rparr>"

definition wednesday_game :: GameData where
  "wednesday_game = example_game ''arena-1'' ''Combat'' ''2024-01-03T10:00:00Z'' (Some ''2024-01-03T11:30:00Z'')"

definition sunday_game :: GameData where
  "sunday_game = example_game ''arena-2'' ''Combat'' ''2024-01-07T09:00:00Z'' None"

definition undated_game :: GameData where
  "undated_game = example_game ''arena-3'' ''Combat'' ''not a date'' None"

definition stray_game :: GameData where
  "stray_game = example_game ''maze-1'' ''Puzzle'' ''2024-01-03T10:00:00Z'' None"

definition ghost_game :: GameData where
  "ghost_game = example_game ''maze-2'' ''Puzzle'' ''not a date'' None"

definition puzzle_game :: GameData where
  "puzzle_game = example_game ''maze-3'' ''Puzzle'' ''2024-01-03T10:00:00Z'' (Some ''2024-01-03T11:30:00Z'')"

definition numbered_game :: GameData where
  "numbered_game = example_game ''tiles-1'' ''2048'' ''2024-01-03T10:00:00Z'' (Some ''2024-01-03T11:30:00Z'')"

definition constructor_game :: GameData where
  "constructor_game = example_game ''lobby-1'' ''constructor'' ''2024-01-03T10:00:00Z'' (Some ''2024-01-03T11:30:00Z'')"

definition late_game :: GameData where
  "late_game = example_game ''maze-4'' ''Puzzle'' ''2024-01-03T11:30:00Z'' (Some [])"

definition later_env :: js_env where
  "later_env = example_env\<lparr>Date_now := (\<lambda>n. 1704283260000 + int n)\<rparr>"

section \<open>ColorAssigner on the worked examples\<close>

text \<open>
  C3. ColorAssigner reproduces the hash, brighten and format steps on the worked examples:
  the empty string is assigned \<^verbatim>\<open>#000000\<close>, and \<^verbatim>\<open>"A"\<close> has hash 65, hence the channels
  r = 65, g = 0, b = 0, the brightened red 78, and the colour \<^verbatim>\<open>#4e0000\<close>.
\<close>

theorem generateColorFromString_examples:
  "generateColorFromString [] = js ''#000000''
   \<and> foldl hash_step 0 (js ''A'') = 65
   \<and> js_rem (js_and 65 255) 256 = 65
   \<and> js_rem (js_and (js_sar 65 8) 255) 256 = 0
   \<and> js_rem (js_and (js_sar 65 16) 255) 256 = 0
   \<and> floor_times_1_2 65 = 78
   \<and> generateColorFromString (js ''A'') = js ''#4e0000''"
  by code_simp

text \<open>
  On every channel value the floor of the rounded product is the floor of \<open>6v/5\<close>. Where
  \<open>6v/5\<close> is an integer, the exact product with the double lies just below it and the
  rounding restores it (for 65: 77.999... becomes 78); elsewhere no integer is reached.
\<close>

lemma floor_times_1_2_channels:
  "list_all (\<lambda>v. floor_times_1_2 v = (v * 6) div 5) [0..255]"
  by code_simp

section \<open>WeeklyAggregator: indices, weekdays and the shape of the series\<close>

lemma indexOf_from_absent: "v \<notin> set us \<Longrightarrow> indexOf_from us v i = - 1"
  by (induction us arbitrary: i) auto

lemma indexOf_from_present:
  "v \<in> set us \<Longrightarrow> 0 \<le> i \<Longrightarrow>
     i \<le> indexOf_from us v i \<and> indexOf_from us v i < i + int (length us)
     \<and> us ! nat (indexOf_from us v i - i) = v"
proof (induction us arbitrary: i)
  case Nil
  then show ?case by simp
next
  case (Cons u us)
  show ?case
  proof (cases "u = v")
    case True
    then show ?thesis by simp
  next
    case False
    with Cons.prems have mem: "v \<in> set us" by simp
    from Cons.prems have "0 \<le> i + 1" by simp
    from Cons.IH [OF mem this]
    have ih: "i + 1 \<le> indexOf_from us v (i + 1)"
      "indexOf_from us v (i + 1) < i + 1 + int (length us)"
      "us ! nat (indexOf_from us v (i + 1) - (i + 1)) = v"
      by simp_all
    from ih(1) have "nat (indexOf_from us v (i + 1) - i) = Suc (nat (indexOf_from us v (i + 1) - (i + 1)))"
      by simp
    with ih False show ?thesis by simp
  qed
qed

lemma indexOf_absent: "v \<notin> set us \<Longrightarrow> indexOf us v = - 1"
  by (simp add: indexOf_def indexOf_from_absent)

lemma indexOf_present:
  "v \<in> set us \<Longrightarrow> 0 \<le> indexOf us v \<and> nat (indexOf us v) < length us \<and> us ! nat (indexOf us v) = v"
  using indexOf_from_present [of v us 0] by (auto simp: indexOf_def)

lemma indexOf_found_iff: "indexOf us v \<noteq> - 1 \<longleftrightarrow> v \<in> set us"
  using indexOf_present [of v us] indexOf_absent [of v us] by auto

lemma WeekDay_range: "0 \<le> WeekDay t \<and> WeekDay t \<le> 6"
  by (simp add: WeekDay_def)

lemma Date_getDay_range: "Date_getDay env s = Some d \<Longrightarrow> 0 \<le> d \<and> d \<le> 6"
  using WeekDay_range by (auto simp: Date_getDay_def split: option.splits)

lemma adjustedDay_range:
  "adjustedDay (Date_getDay env s) = Some k \<Longrightarrow> 0 \<le> k \<and> k \<le> 6"
  using Date_getDay_range [of env s]
  by (auto simp: adjustedDay_def split: option.splits if_splits)

lemma count_game_absent:
  "category_name game \<notin> set categories \<Longrightarrow> count_game env categories series game = series"
  by (simp add: count_game_def indexOf_absent)

lemma count_game_present:
  "category_name game \<in> set categories \<Longrightarrow>
   count_game env categories series game =
     series[nat (indexOf categories (category_name game)) :=
       (series ! nat (indexOf categories (category_name game)))
         \<lparr>data := increment (adjustedDay (Date_getDay env (start_time game)))
                    (data (series ! nat (indexOf categories (category_name game))))\<rparr>]"
  using indexOf_found_iff [of categories "category_name game"]
  by (simp add: count_game_def Let_def)

lemma increment_well_formed:
  assumes "length (slots arr) = 7" "list_all (\<lambda>v. 0 \<le> v) (slots arr)"
    and "k = None \<or> (\<exists>i. k = Some i \<and> 0 \<le> i \<and> i \<le> 6)"
  shows "length (slots (increment k arr)) = 7 \<and> list_all (\<lambda>v. 0 \<le> v) (slots (increment k arr))"
proof (cases k)
  case None
  with assms show ?thesis by (simp add: increment_def)
next
  case (Some i)
  with assms have i: "nat i < length (slots arr)" by auto
  from assms(2) i have "0 \<le> slots arr ! nat i" by (simp add: list_all_length)
  then have "\<forall>v \<in> set ((slots arr)[nat i := slots arr ! nat i + 1]). 0 \<le> v"
    using assms(2) set_update_subset_insert [of "slots arr" "nat i" "slots arr ! nat i + 1"]
    by (auto simp: list_all_iff)
  with Some assms(1) show ?thesis by (simp add: increment_def list_all_iff)
qed

lemma count_game_well_formed:
  assumes "well_formed categories series"
  shows "well_formed categories (count_game env categories series game)"
proof (cases "category_name game \<in> set categories")
  case False
  with assms show ?thesis by (simp add: count_game_absent)
next
  case True
  define i where "i = nat (indexOf categories (category_name game))"
  define k where "k = adjustedDay (Date_getDay env (start_time game))"
  from assms have len: "length series = length categories"
    by (metis length_map well_formed_def)
  with indexOf_present [OF True] have i: "i < length series" by (simp add: i_def)
  define s where "s = series ! i"
  from assms i have s: "length (slots (data s)) = 7" "list_all (\<lambda>v. 0 \<le> v) (slots (data s))"
    by (simp_all add: well_formed_def list_all_length s_def)
  have "k = None \<or> (\<exists>j. k = Some j \<and> 0 \<le> j \<and> j \<le> 6)"
    using adjustedDay_range [of env "start_time game"] by (cases k) (auto simp: k_def)
  from increment_well_formed [OF s this]
  have new: "length (slots (increment k (data s))) = 7"
    "list_all (\<lambda>v. 0 \<le> v) (slots (increment k (data s)))" by simp_all
  have step: "count_game env categories series game = series[i := s\<lparr>data := increment k (data s)\<rparr>]"
    by (simp add: count_game_present [OF True] i_def k_def s_def)
  have names: "map name (series[i := s\<lparr>data := increment k (data s)\<rparr>]) = map name series"
    using i by (simp add: map_update s_def list_update_same_conv)
  have "\<forall>t \<in> set (series[i := s\<lparr>data := increment k (data s)\<rparr>]).
          length (slots (data t)) = 7 \<and> list_all (\<lambda>v. 0 \<le> v) (slots (data t))"
    using assms new set_update_subset_insert [of series i "s\<lparr>data := increment k (data s)\<rparr>"]
    by (auto simp: well_formed_def list_all_iff)
  with names assms show ?thesis
    unfolding step by (simp add: well_formed_def list_all_iff)
qed

lemma initial_series_well_formed: "well_formed categories (initial_series categories)"
  by (simp add: well_formed_def initial_series_def list_all_iff comp_def)

lemma foldl_count_game_well_formed:
  "well_formed categories series \<Longrightarrow> well_formed categories (foldl (count_game env categories) series games)"
  by (induction games arbitrary: series) (simp_all add: count_game_well_formed)

lemma weekly_counts_well_formed: "well_formed categories (weekly_counts env categories games)"
  by (simp add: weekly_counts_def foldl_count_game_well_formed initial_series_well_formed)









section \<open>WeeklyAggregator: which series are emitted\<close>

text \<open>
  C5. The output holds exactly the series with at least one slot above zero, in the order
  of the category list: the series before filtering are the categories in order, the
  output is their sublist of those with a positive slot, every emitted series has seven
  slots, none negative and one positive, and a series whose slots are all zero is not
  emitted.
\<close>

theorem nonempty_series_only:
  "map name (weekly_counts env categories games) = categories
   \<and> generateChartSeries env categories games
       = filter (\<lambda>s. \<exists>v \<in> set (slots (data s)). 0 < v) (weekly_counts env categories games)
   \<and> subseq (map name (generateChartSeries env categories games)) categories
   \<and> (\<forall>s \<in> set (generateChartSeries env categories games).
         length (slots (data s)) = 7 \<and> (\<exists>v \<in> set (slots (data s)). 0 < v)
         \<and> (\<forall>v \<in> set (slots (data s)). 0 \<le> v))
   \<and> (\<forall>s \<in> set (weekly_counts env categories games).
         (\<forall>v \<in> set (slots (data s)). v = 0) \<longrightarrow> s \<notin> set (generateChartSeries env categories games))"
proof -
  have wf: "well_formed categories (weekly_counts env categories games)"
    by (rule weekly_counts_well_formed)
  then have names: "map name (weekly_counts env categories games) = categories"
    by (simp add: well_formed_def)
  have filt: "generateChartSeries env categories games
       = filter (\<lambda>s. \<exists>v \<in> set (slots (data s)). 0 < v) (weekly_counts env categories games)"
    unfolding generateChartSeries_def
    by (rule filter_cong) (simp_all add: has_positive_def list_ex_iff)
  have "subseq (map name (filter has_positive (weekly_counts env categories games)))
          (map name (weekly_counts env categories games))"
    by (intro subseq_map subseq_filter_left)
  with names have sub: "subseq (map name (generateChartSeries env categories games)) categories"
    by (simp add: generateChartSeries_def)
  from wf have "\<forall>s \<in> set (weekly_counts env categories games).
      length (slots (data s)) = 7 \<and> (\<forall>v \<in> set (slots (data s)). 0 \<le> v)"
    by (simp add: well_formed_def list_all_iff)
  then have emitted: "\<forall>s \<in> set (generateChartSeries env categories games).
         length (slots (data s)) = 7 \<and> (\<exists>v \<in> set (slots (data s)). 0 < v)
         \<and> (\<forall>v \<in> set (slots (data s)). 0 \<le> v)"
    unfolding filt by auto
  have zero: "\<forall>s \<in> set (weekly_counts env categories games).
         (\<forall>v \<in> set (slots (data s)). v = 0) \<longrightarrow> s \<notin> set (generateChartSeries env categories games)"
    unfolding filt by auto
  from names filt sub emitted zero show ?thesis by (intro conjI)
qed

theorem nonempty_series_only_witness:
  "map name (weekly_counts example_env [js ''Combat'', js ''Race''] [wednesday_game, sunday_game])
     = [js ''Combat'', js ''Race'']
   \<and> subseq (map name (generateChartSeries example_env [js ''Combat'', js ''Race''] [wednesday_game, sunday_game]))
        [js ''Combat'', js ''Race'']
   \<and> generateChartSeries example_env [js ''Combat'', js ''Race''] [wednesday_game, sunday_game]
       = [\<lparr>name = js ''Combat'', data = \<lparr>slots = [0, 0, 1, 0, 0, 0, 1], NaN_prop = False\<rparr>\<rparr>]"
proof -
  have out: "generateChartSeries example_env [js ''Combat'', js ''Race''] [wednesday_game, sunday_game]
       = [\<lparr>name = js ''Combat'', data = \<lparr>slots = [0, 0, 1, 0, 0, 0, 1], NaN_prop = False\<rparr>\<rparr>]"
    by code_simp
  from nonempty_series_only [of example_env "[js ''Combat'', js ''Race'']" "[wednesday_game, sunday_game]"]
  have "map name (weekly_counts example_env [js ''Combat'', js ''Race''] [wednesday_game, sunday_game])
     = [js ''Combat'', js ''Race'']"
    and "subseq (map name (generateChartSeries example_env [js ''Combat'', js ''Race''] [wednesday_game, sunday_game]))
        [js ''Combat'', js ''Race'']"
    by blast+
  with out show ?thesis by (intro conjI)
qed

section \<open>WeeklyAggregator: records that are not counted\<close>

lemma foldl_count_game_absent:
  "category_name game \<notin> set categories \<Longrightarrow>
   foldl (count_game env categories) series (before @ game # after)
     = foldl (count_game env categories) series (before @ after)"
  by (simp add: count_game_absent)

text \<open>
  C7. A record whose category is not in the category list is ignored: the loop body
  returns the series as they were, so no slot changes and no series is added, the function
  has no failing branch, and the output is that of the batch without the record.
\<close>

theorem unknown_category_ignored:
  assumes "category_name game \<notin> set categories"
  shows "count_game env categories series game = series
     \<and> weekly_counts env categories (before @ game # after) = weekly_counts env categories (before @ after)
     \<and> generateChartSeries env categories (before @ game # after)
         = generateChartSeries env categories (before @ after)"
  using assms
  by (simp add: count_game_absent generateChartSeries_def weekly_counts_def)

theorem unknown_category_ignored_witness:
  "category_name stray_game \<notin> set [js ''Combat'']
   \<and> generateChartSeries example_env [js ''Combat''] ([wednesday_game] @ stray_game # [sunday_game])
       = [\<lparr>name = js ''Combat'', data = \<lparr>slots = [0, 0, 1, 0, 0, 0, 1], NaN_prop = False\<rparr>\<rparr>]"
proof -
  have absent: "category_name stray_game \<notin> set [js ''Combat'']"
    by code_simp
  have without: "generateChartSeries example_env [js ''Combat''] ([wednesday_game] @ [sunday_game])
       = [\<lparr>name = js ''Combat'', data = \<lparr>slots = [0, 0, 1, 0, 0, 0, 1], NaN_prop = False\<rparr>\<rparr>]"
    by code_simp
  from unknown_category_ignored [OF absent, of example_env "[]" "[wednesday_game]" "[sunday_game]"]
  have "generateChartSeries example_env [js ''Combat''] ([wednesday_game] @ stray_game # [sunday_game])
      = generateChartSeries example_env [js ''Combat''] ([wednesday_game] @ [sunday_game])"
    by blast
  with absent without show ?thesis by simp
qed

lemma weekday_counts_count_game_invalid:
  assumes "Date_parse env (start_time game) = None"
  shows "map weekday_counts (count_game env categories series game) = map weekday_counts series"
proof (cases "category_name game \<in> set categories")
  case False
  then show ?thesis by (simp add: count_game_absent)
next
  case True
  define i where "i = nat (indexOf categories (category_name game))"
  from assms have k: "adjustedDay (Date_getDay env (start_time game)) = None"
    by (simp add: adjustedDay_def Date_getDay_def)
  have step: "count_game env categories series game
      = series[i := (series ! i)\<lparr>data := (data (series ! i))\<lparr>NaN_prop := True\<rparr>\<rparr>]"
    by (simp add: count_game_present [OF True] k increment_def i_def)
  show ?thesis
  proof (cases "i < length series")
    case True
    then show ?thesis
      unfolding step by (simp add: map_update weekday_counts_def list_update_same_conv)
  next
    case False
    then show ?thesis unfolding step by (simp add: list_update_beyond)
  qed
qed

lemma weekday_counts_count_game_cong:
  assumes "map weekday_counts series = map weekday_counts series'"
  shows "map weekday_counts (count_game env categories series game)
       = map weekday_counts (count_game env categories series' game)"
proof (cases "category_name game \<in> set categories")
  case False
  with assms show ?thesis by (simp add: count_game_absent)
next
  case True
  define i where "i = nat (indexOf categories (category_name game))"
  define k where "k = adjustedDay (Date_getDay env (start_time game))"
  from assms have len: "length series = length series'" by (rule map_eq_imp_length_eq)
  have upd: "weekday_counts (s\<lparr>data := increment k (data s)\<rparr>)
           = weekday_counts (s'\<lparr>data := increment k (data s')\<rparr>)"
    if "weekday_counts s = weekday_counts s'" for s s' :: "week_array serie"
    using that by (cases k) (simp_all add: weekday_counts_def increment_def)
  show ?thesis
  proof (cases "i < length series")
    case False
    with len assms show ?thesis
      by (simp add: count_game_present [OF True] i_def [symmetric] list_update_beyond)
  next
    case i: True
    from assms i len have "weekday_counts (series ! i) = weekday_counts (series' ! i)"
      by (metis nth_map)
    from upd [OF this] assms show ?thesis
      by (simp add: count_game_present [OF True] i_def [symmetric] k_def [symmetric] map_update)
  qed
qed

lemma weekday_counts_foldl_cong:
  "map weekday_counts series = map weekday_counts series' \<Longrightarrow>
   map weekday_counts (foldl (count_game env categories) series games)
     = map weekday_counts (foldl (count_game env categories) series' games)"
proof (induction games arbitrary: series series')
  case Nil
  then show ?case by simp
next
  case (Cons g gs)
  from Cons.prems
  have "map weekday_counts (count_game env categories series g)
      = map weekday_counts (count_game env categories series' g)"
    by (rule weekday_counts_count_game_cong)
  then have "map weekday_counts (foldl (count_game env categories) (count_game env categories series g) gs)
      = map weekday_counts (foldl (count_game env categories) (count_game env categories series' g) gs)"
    by (rule Cons.IH)
  then show ?case by simp
qed

lemma has_positive_weekday_counts: "has_positive = (\<lambda>p. list_ex (\<lambda>v. v > 0) (snd p)) \<circ> weekday_counts"
  by (auto simp: has_positive_def weekday_counts_def fun_eq_iff)

lemma weekday_counts_filter_cong:
  assumes "map weekday_counts series = map weekday_counts series'"
  shows "map weekday_counts (filter has_positive series) = map weekday_counts (filter has_positive series')"
proof -
  have "map weekday_counts (filter has_positive t)
      = filter (\<lambda>p. list_ex (\<lambda>v. v > 0) (snd p)) (map weekday_counts t)" for t
    by (simp add: filter_map has_positive_weekday_counts)
  with assms show ?thesis by simp
qed

text \<open>
  C10. A record whose start time is not a valid date changes none of the seven weekday
  slots of any series, also when its category is in the category list (the increment goes
  to a property named \<^verbatim>\<open>"NaN"\<close>, which is no slot); the weekday counts, before and after
  filtering, are those of the batch without the record.
\<close>

theorem invalid_start_leaves_slots:
  assumes "Date_parse env (start_time game) = None"
  shows "map weekday_counts (count_game env categories series game) = map weekday_counts series
     \<and> map weekday_counts (weekly_counts env categories (before @ game # after))
         = map weekday_counts (weekly_counts env categories (before @ after))
     \<and> map weekday_counts (generateChartSeries env categories (before @ game # after))
         = map weekday_counts (generateChartSeries env categories (before @ after))"
proof -
  have step: "map weekday_counts (count_game env categories series game) = map weekday_counts series"
    for series by (rule weekday_counts_count_game_invalid [OF assms])
  have counts: "map weekday_counts (weekly_counts env categories (before @ game # after))
      = map weekday_counts (weekly_counts env categories (before @ after))"
    unfolding weekly_counts_def foldl_append foldl_Cons
    by (rule weekday_counts_foldl_cong) (rule step)
  then have "map weekday_counts (generateChartSeries env categories (before @ game # after))
         = map weekday_counts (generateChartSeries env categories (before @ after))"
    unfolding generateChartSeries_def by (rule weekday_counts_filter_cong)
  with step counts show ?thesis by (intro conjI)
qed

theorem invalid_start_leaves_slots_witness:
  "Date_parse example_env (start_time undated_game) = None
   \<and> category_name undated_game \<in> set [js ''Combat'']
   \<and> map weekday_counts
        (generateChartSeries example_env [js ''Combat''] ([wednesday_game] @ undated_game # [sunday_game]))
       = [(js ''Combat'', [0, 0, 1, 0, 0, 0, 1])]"
proof -
  have invalid: "Date_parse example_env (start_time undated_game) = None"
    and present: "category_name undated_game \<in> set [js ''Combat'']"
    by code_simp+
  have without: "map weekday_counts
        (generateChartSeries example_env [js ''Combat''] ([wednesday_game] @ [sunday_game]))
       = [(js ''Combat'', [0, 0, 1, 0, 0, 0, 1])]"
    by code_simp
  from invalid_start_leaves_slots [OF invalid, of "[js ''Combat'']" "[]" "[wednesday_game]" "[sunday_game]"]
  have "map weekday_counts
          (generateChartSeries example_env [js ''Combat''] ([wednesday_game] @ undated_game # [sunday_game]))
      = map weekday_counts
          (generateChartSeries example_env [js ''Combat''] ([wednesday_game] @ [sunday_game]))"
    by blast
  with invalid present without show ?thesis by simp
qed

section \<open>TimelineBuilder: the reduction in closed form\<close>

lemma endTime_ongoing:
  "ongoing game \<Longrightarrow> endTime env calls game = (Some (Date_now env calls), Suc calls)"
  by (auto simp: ongoing_def endTime_def)

lemma endTime_ended:
  "\<not> ongoing game \<Longrightarrow> endTime env calls game = (Date_getTime env (the (end_time game)), calls)"
  by (auto simp: ongoing_def endTime_def split: option.splits)

lemma snd_endTime: "snd (endTime env calls game) = calls + (if ongoing game then 1 else 0)"
  by (simp add: endTime_ongoing endTime_ended)

lemma map_fst_timed [simp]: "map fst (timed env calls games) = games"
  by (induction games arbitrary: calls) simp_all

lemma length_timed [simp]: "length (timed env calls games) = length games"
  by (induction games arbitrary: calls) simp_all

lemma categories_timed:
  "map (\<lambda>tg. category_name (fst tg)) (timed env calls games) = map category_name games"
  by (induction games arbitrary: calls) simp_all

lemma timed_append:
  "timed env calls (games @ rest)
     = timed env calls games @ timed env (calls + length (filter ongoing games)) rest"
  by (induction games arbitrary: calls) (simp_all add: snd_endTime)

lemma first_occurrences_snoc:
  "first_occurrences (vs @ [v]) = (if v \<in> set vs then first_occurrences vs else first_occurrences vs @ [v])"
  by (simp add: first_occurrences_def)

lemma set_first_occurrences [simp]: "set (first_occurrences vs) = set vs"
  by (simp add: first_occurrences_def)

lemma distinct_first_occurrences [simp]: "distinct (first_occurrences vs)"
  by (simp add: first_occurrences_def)

lemma first_occurrences_Nil [simp]: "first_occurrences [] = []"
  by (simp add: first_occurrences_def)

lemma get_prop_tabulate:
  "get_prop (map (\<lambda>k. (k, f k)) ks) k
     = (if k \<in> set ks then Own (f k) else if in_prototype k then Inherited else Undefined)"
  by (simp add: get_prop_def map_of_map_restrict restrict_map_def)

lemma update_prop_tabulate:
  "update_prop (map (\<lambda>k. (k, f k)) ks) k v = map (\<lambda>k'. (k', if k' = k then v else f k')) ks"
  by (induction ks) (simp_all add: update_prop_def)

lemma map_filter_append: "List.map_filter f (us @ vs) = List.map_filter f us @ List.map_filter f vs"
  by (simp add: List.map_filter_def)

lemma intervals_of_append:
  "intervals_of env cc k (tgs @ rest) = intervals_of env cc k tgs @ intervals_of env cc k rest"
  by (simp add: intervals_of_def map_filter_append)

lemma intervals_of_single:
  "intervals_of env cc k [tg]
     = (if category_name (fst tg) = k
        then (case interval_of env cc tg of None \<Rightarrow> [] | Some p \<Rightarrow> [p]) else [])"
  by (simp add: intervals_of_def split: option.splits)

lemma intervals_of_snoc:
  "intervals_of env cc k (tgs @ [tg])
     = intervals_of env cc k tgs
       @ (if category_name (fst tg) = k
          then (case interval_of env cc tg of None \<Rightarrow> [] | Some p \<Rightarrow> [p]) else [])"
  by (simp only: intervals_of_append intervals_of_single)

lemma intervals_of_unseen:
  assumes "k \<notin> (\<lambda>tg. category_name (fst tg)) ` set tgs"
  shows "intervals_of env cc k tgs = []"
proof -
  from assms have "filter (\<lambda>tg. category_name (fst tg) = k) tgs = []"
    by (auto simp: filter_empty_conv)
  then show ?thesis by (simp add: intervals_of_def)
qed

lemma reducer_interval:
  "reducer env cc (acc, calls) game =
     (let k = category_name game;
          acc1 = (if get_prop acc k = Undefined then create_prop acc k \<lparr>name = k, data = []\<rparr> else acc)
      in case interval_of env cc (game, fst (endTime env calls game)) of
           None \<Rightarrow> Inr (acc1, snd (endTime env calls game))
         | Some p \<Rightarrow>
             (case get_prop acc1 k of
                Own bucket \<Rightarrow> Inr (update_prop acc1 k (bucket\<lparr>data := data bucket @ [p]\<rparr>),
                                   snd (endTime env calls game))
              | _ \<Rightarrow> Inl TypeError))"
  by (simp add: reducer_def interval_of_def Let_def split: option.splits)

lemma valid_record_interval: "valid_record env tg \<longleftrightarrow> interval_of env cc tg \<noteq> None"
  by (simp add: valid_record_def interval_of_def split: option.splits)

lemma reducer_timeline_of:
  "reducer env cc (timeline_of env cc tgs, calls) game
     = (if throws env (game, fst (endTime env calls game)) then Inl TypeError
        else Inr (timeline_of env cc (tgs @ [(game, fst (endTime env calls game))]),
                  snd (endTime env calls game)))"
proof -
  define tg where "tg = (game, fst (endTime env calls game))"
  define calls' where "calls' = snd (endTime env calls game)"
  define k where "k = category_name game"
  define K where "K = first_occurrences (filter (\<lambda>k. \<not> in_prototype k) (map (\<lambda>tg. category_name (fst tg)) tgs))"
  define B where "B = bucket_of env cc tgs"
  define B' where "B' = bucket_of env cc (tgs @ [tg])"
  have k_tg: "category_name (fst tg) = k" by (simp add: tg_def k_def)
  have T: "timeline_of env cc tgs = map (\<lambda>k. (k, B k)) K"
    by (simp add: timeline_of_def K_def B_def)
  have K_set: "set K = {c \<in> (\<lambda>tg. category_name (fst tg)) ` set tgs. \<not> in_prototype c}"
    by (auto simp: K_def)
  have B'_other: "B' c = B c" if "c \<noteq> k" for c
    using that by (simp add: B'_def B_def bucket_of_def intervals_of_snoc k_tg)
  have B'_same: "B' k = (B k)\<lparr>data := data (B k) @ (case interval_of env cc tg of None \<Rightarrow> [] | Some p \<Rightarrow> [p])\<rparr>"
    by (simp add: B'_def B_def bucket_of_def intervals_of_snoc k_tg)
  have red: "reducer env cc (acc, calls) game =
     (let acc1 = (if get_prop acc k = Undefined then create_prop acc k \<lparr>name = k, data = []\<rparr> else acc)
      in case interval_of env cc tg of
           None \<Rightarrow> Inr (acc1, calls')
         | Some p \<Rightarrow>
             (case get_prop acc1 k of
                Own bucket \<Rightarrow> Inr (update_prop acc1 k (bucket\<lparr>data := data bucket @ [p]\<rparr>), calls')
              | _ \<Rightarrow> Inl TypeError))" for acc
    unfolding tg_def calls'_def k_def Let_def by (simp only: reducer_interval Let_def)
  have goal: "reducer env cc (timeline_of env cc tgs, calls) game
     = (if throws env tg then Inl TypeError else Inr (timeline_of env cc (tgs @ [tg]), calls'))"
  proof (cases "in_prototype k")
    case True
    then have notin: "k \<notin> set K" by (simp add: K_set)
    from True have K': "first_occurrences (filter (\<lambda>k. \<not> in_prototype k)
          (map (\<lambda>tg. category_name (fst tg)) (tgs @ [tg]))) = K"
      by (simp add: K_def k_tg)
    have "B' c = B c" if "c \<in> set K" for c
      using that notin by (intro B'_other) auto
    then have "map (\<lambda>c. (c, B' c)) K = map (\<lambda>c. (c, B c)) K"
      by simp
    moreover have "timeline_of env cc (tgs @ [tg]) = map (\<lambda>c. (c, B' c)) K"
      by (simp only: timeline_of_def K' B'_def)
    ultimately have T': "timeline_of env cc (tgs @ [tg]) = timeline_of env cc tgs"
      by (simp only: T)
    from True notin have g: "get_prop (timeline_of env cc tgs) k = Inherited"
      by (simp add: T get_prop_tabulate)
    show ?thesis
      using True
      by (cases "interval_of env cc tg")
        (simp_all add: red g T' throws_def k_tg valid_record_interval [of env tg cc])
  next
    case False
    define K1 where "K1 = (if k \<in> set K then K else K @ [k])"
    have K': "first_occurrences (filter (\<lambda>k. \<not> in_prototype k)
          (map (\<lambda>tg. category_name (fst tg)) (tgs @ [tg]))) = K1"
      using False by (auto simp: K_def k_tg K1_def first_occurrences_snoc)
    have mem: "k \<in> set K1" by (simp add: K1_def)
    have fresh: "B k = \<lparr>name = k, data = []\<rparr>" if "k \<notin> set K"
    proof -
      from that False have "k \<notin> (\<lambda>tg. category_name (fst tg)) ` set tgs" by (simp add: K_set)
      then show ?thesis by (simp add: B_def bucket_of_def intervals_of_unseen)
    qed
    have acc1: "(if get_prop (timeline_of env cc tgs) k = Undefined
                 then create_prop (timeline_of env cc tgs) k \<lparr>name = k, data = []\<rparr>
                 else timeline_of env cc tgs) = map (\<lambda>c. (c, B c)) K1"
      using False fresh by (simp add: T get_prop_tabulate K1_def create_prop_def)
    have T': "timeline_of env cc (tgs @ [tg]) = map (\<lambda>c. (c, B' c)) K1"
      by (simp only: timeline_of_def K' B'_def)
    show ?thesis
    proof (cases "interval_of env cc tg")
      case None
      then have "B' c = B c" for c
        using B'_other [of c] B'_same by (cases "c = k") simp_all
      with None False show ?thesis
        by (simp add: red acc1 T' throws_def k_tg)
    next
      case (Some p)
      have "(if c = k then (B k)\<lparr>data := data (B k) @ [p]\<rparr> else B c) = B' c" for c
        using Some B'_other [of c] B'_same by (cases "c = k") simp_all
      then have "map (\<lambda>c. (c, if c = k then (B k)\<lparr>data := data (B k) @ [p]\<rparr> else B c)) K1
          = map (\<lambda>c. (c, B' c)) K1"
        by simp
      with Some False mem show ?thesis
        by (simp add: red acc1 T' get_prop_tabulate update_prop_tabulate throws_def k_tg)
    qed
  qed
  then show ?thesis by (simp only: tg_def calls'_def)
qed

lemma timeline_of_Nil: "timeline_of env cc [] = []"
  by (simp add: timeline_of_def)

lemma reduce_reducer:
  "reduce (reducer env cc) games (timeline_of env cc tgs, calls)
     = (if list_ex (throws env) (timed env calls games) then Inl TypeError
        else Inr (timeline_of env cc (tgs @ timed env calls games),
                  calls + length (filter ongoing games)))"
proof (induction games arbitrary: tgs calls)
  case Nil
  show ?case by simp
next
  case (Cons game games)
  define tg where "tg = (game, fst (endTime env calls game))"
  define calls' where "calls' = snd (endTime env calls game)"
  have step: "reducer env cc (timeline_of env cc tgs, calls) game
     = (if throws env tg then Inl TypeError else Inr (timeline_of env cc (tgs @ [tg]), calls'))"
    by (simp only: reducer_timeline_of tg_def calls'_def)
  have unfold: "timed env calls (game # games) = tg # timed env calls' games"
    by (simp add: tg_def calls'_def)
  have count: "calls' + length (filter ongoing games) = calls + length (filter ongoing (game # games))"
    by (simp add: calls'_def snd_endTime)
  show ?case
  proof (cases "throws env tg")
    case True
    then have ex: "list_ex (throws env) (timed env calls (game # games))"
      unfolding unfold by simp
    from True have "reduce (reducer env cc) (game # games) (timeline_of env cc tgs, calls) = Inl TypeError"
      by (simp add: step)
    with ex show ?thesis by (simp only: if_True)
  next
    case False
    then have ex: "list_ex (throws env) (timed env calls (game # games))
        = list_ex (throws env) (timed env calls' games)"
      unfolding unfold by simp
    have app: "tgs @ timed env calls (game # games) = (tgs @ [tg]) @ timed env calls' games"
      unfolding unfold by simp
    from False have "reduce (reducer env cc) (game # games) (timeline_of env cc tgs, calls)
        = reduce (reducer env cc) games (timeline_of env cc (tgs @ [tg]), calls')"
      by (simp add: step)
    also have "\<dots> = (if list_ex (throws env) (timed env calls' games) then Inl TypeError
        else Inr (timeline_of env cc ((tgs @ [tg]) @ timed env calls' games),
                  calls' + length (filter ongoing games)))"
      by (rule Cons.IH)
    finally show ?thesis by (simp only: ex app count)
  qed
qed

lemma insort_key_tabulate:
  "insort_key (\<lambda>p. f (fst p)) (k, g k) (map (\<lambda>k. (k, g k)) ks)
     = map (\<lambda>k. (k, g k)) (insort_key f k ks)"
  by (induction ks) simp_all

lemma sort_key_tabulate:
  "sort_key (\<lambda>p. f (fst p)) (map (\<lambda>k. (k, g k)) ks) = map (\<lambda>k. (k, g k)) (sort_key f ks)"
  by (induction ks) (simp_all add: insort_key_tabulate)

lemma own_property_order_tabulate:
  "own_property_order (map (\<lambda>k. (k, g k)) ks) = map (\<lambda>k. (k, g k)) (key_order ks)"
  by (simp add: own_property_order_def key_order_def filter_map comp_def sort_key_tabulate)

lemma Object_values_tabulate: "Object_values (map (\<lambda>k. (k, g k)) ks) = map g (key_order ks)"
  by (simp add: Object_values_def own_property_order_tabulate comp_def)

text \<open>
  The build: it throws when a record of the batch throws, and returns the buckets of the
  other categories otherwise, in the key order of the object.
\<close>

lemma chartData_eq:
  "chartData env cc games
     = (if list_ex (throws env) (timed env 0 games) then Inl TypeError
        else Inr (map (bucket_of env cc (timed env 0 games))
               (key_order (first_occurrences (filter (\<lambda>k. \<not> in_prototype k) (map category_name games))))))"
proof -
  have "reduce (reducer env cc) games ([], 0)
      = reduce (reducer env cc) games (timeline_of env cc [], 0)"
    by (simp add: timeline_of_Nil)
  also have "\<dots> = (if list_ex (throws env) (timed env 0 games) then Inl TypeError
        else Inr (timeline_of env cc ([] @ timed env 0 games), 0 + length (filter ongoing games)))"
    by (rule reduce_reducer)
  finally show ?thesis
    by (simp add: chartData_def timeline_of_def Object_values_tabulate categories_timed)
qed

lemma mset_key_order: "mset (key_order ks) = mset ks"
  by (simp add: key_order_def multiset_partition [symmetric] add.commute)

lemma set_key_order: "set (key_order ks) = set ks"
  by (metis mset_key_order set_mset_mset)

lemma key_order_no_index: "list_all (\<lambda>k. \<not> is_array_index k) ks \<Longrightarrow> key_order ks = ks"
  by (simp add: key_order_def list_all_iff filter_id_conv filter_empty_conv)

lemma sum_list_key_order:
  fixes h :: "js_string \<Rightarrow> nat"
  shows "sum_list (map h (key_order ks)) = sum_list (map h ks)"
proof -
  have "mset (map h (key_order ks)) = mset (map h ks)"
    by (simp add: mset_key_order)
  then have "sum_mset (mset (map h (key_order ks))) = sum_mset (mset (map h ks))"
    by (rule arg_cong)
  then show ?thesis by (simp only: sum_mset_sum_list)
qed

lemma length_intervals_of:
  "length (intervals_of env cc k tgs)
     = length (filter (\<lambda>tg. category_name (fst tg) = k \<and> valid_record env tg) tgs)"
proof -
  have "length (List.map_filter f us) = length (filter (\<lambda>u. f u \<noteq> None) us)"
    for f :: "GameData \<times> int option \<Rightarrow> point option" and us
    by (simp add: List.map_filter_def)
  then show ?thesis
    by (simp add: intervals_of_def valid_record_interval [of env _ cc] conj_commute)
qed

lemma sum_length_by_key:
  assumes "distinct ks" "f ` set us \<subseteq> set ks"
  shows "(\<Sum>k\<leftarrow>ks. length (filter (\<lambda>u. f u = k \<and> P u) us)) = length (filter P us)"
  using assms(2)
proof (induction us)
  case Nil
  show ?case by simp
next
  case (Cons u us)
  then have mem: "f u \<in> set ks" and sub: "f ` set us \<subseteq> set ks" by auto
  have "(\<Sum>k\<leftarrow>ks. length (filter (\<lambda>v. f v = k \<and> P v) (u # us)))
      = (\<Sum>k\<leftarrow>ks. (if f u = k \<and> P u then 1 else 0) + length (filter (\<lambda>v. f v = k \<and> P v) us))"
    by (intro arg_cong [where f = sum_list] map_cong refl) simp
  also have "\<dots> = (\<Sum>k\<leftarrow>ks. if f u = k \<and> P u then 1 else 0)
      + (\<Sum>k\<leftarrow>ks. length (filter (\<lambda>v. f v = k \<and> P v) us))"
    by (simp add: sum_list_addf)
  also have "(\<Sum>k\<leftarrow>ks. if f u = k \<and> P u then 1 else 0) = (if P u then 1 else (0::nat))"
    using assms(1) mem by (simp add: sum_list_distinct_conv_sum_set sum.delta' conj_commute if_distrib cong: if_cong)
  finally show ?case using Cons.IH [OF sub] by simp
qed

lemma all_plain_no_throw:
  assumes "list_all (\<lambda>game. \<not> in_prototype (category_name game)) games"
  shows "\<not> list_ex (throws env) (timed env calls games)"
proof -
  have "\<not> in_prototype (category_name (fst tg))" if "tg \<in> set (timed env calls games)" for tg
  proof -
    from that have "fst tg \<in> fst ` set (timed env calls games)" by (rule imageI)
    then have "fst tg \<in> set (map fst (timed env calls games))" by (simp only: set_map)
    then have "fst tg \<in> set games" by (simp only: map_fst_timed)
    with assms show ?thesis by (simp add: list_all_iff)
  qed
  then show ?thesis by (auto simp: list_ex_iff throws_def)
qed

lemma all_plain_keys:
  "list_all (\<lambda>game. \<not> in_prototype (category_name game)) games \<Longrightarrow>
   filter (\<lambda>k. \<not> in_prototype k) (map category_name games) = map category_name games"
  by (simp add: list_all_iff filter_id_conv)

lemma chartData_plain:
  assumes "list_all (\<lambda>game. \<not> in_prototype (category_name game)) games"
  shows "chartData env cc games
     = Inr (map (bucket_of env cc (timed env 0 games)) (key_order (first_occurrences (map category_name games))))"
  using all_plain_no_throw [OF assms, of env 0] all_plain_keys [OF assms]
  by (simp add: chartData_eq)

lemma total_intervals:
  "(\<Sum>s\<leftarrow>map (bucket_of env cc (timed env 0 games)) (key_order (first_occurrences (map category_name games))). length (data s))
     = length (filter (valid_record env) (timed env 0 games))"
proof -
  have "(\<Sum>s\<leftarrow>map (bucket_of env cc (timed env 0 games)) (key_order (first_occurrences (map category_name games))). length (data s))
      = (\<Sum>k\<leftarrow>key_order (first_occurrences (map category_name games)).
           length (filter (\<lambda>tg. category_name (fst tg) = k \<and> valid_record env tg) (timed env 0 games)))"
    by (simp add: comp_def bucket_of_def length_intervals_of)
  also have "\<dots> = (\<Sum>k\<leftarrow>first_occurrences (map category_name games).
           length (filter (\<lambda>tg. category_name (fst tg) = k \<and> valid_record env tg) (timed env 0 games)))"
    by (rule sum_list_key_order)
  also have "\<dots> = length (filter (valid_record env) (timed env 0 games))"
  proof (rule sum_length_by_key)
    show "distinct (first_occurrences (map category_name games))" by simp
    have "(\<lambda>tg. category_name (fst tg)) ` set (timed env 0 games)
        = set (map (\<lambda>tg. category_name (fst tg)) (timed env 0 games))"
      by simp
    then show "(\<lambda>tg. category_name (fst tg)) ` set (timed env 0 games)
        \<subseteq> set (first_occurrences (map category_name games))"
      by (simp only: categories_timed set_first_occurrences)
  qed
  finally show ?thesis .
qed

text \<open>
  Whether a record is valid, and so whether the build throws, can be read off the batch.
\<close>

lemma valid_record_timed:
  "valid_record env (game, fst (endTime env calls game)) = valid_game env game"
  by (cases "ongoing game") (simp_all add: valid_game_def valid_record_def endTime_ongoing endTime_ended)

lemma count_valid_games:
  "length (filter (valid_record env) (timed env calls games)) = length (filter (valid_game env) games)"
  by (induction games arbitrary: calls) (simp_all add: valid_record_timed)

lemma throws_timed:
  "list_ex (throws env) (timed env calls games) = list_ex (collides env) games"
  by (induction games arbitrary: calls) (simp_all add: throws_def collides_def valid_record_timed)

lemma chartData_completes:
  assumes "\<not> list_ex (collides env) games"
  shows "chartData env cc games
     = Inr (map (bucket_of env cc (timed env 0 games))
              (key_order (first_occurrences (filter (\<lambda>k. \<not> in_prototype k) (map category_name games)))))"
  using assms by (simp add: chartData_eq throws_timed)

lemma chartData_throws:
  "chartData env cc games = Inl TypeError \<longleftrightarrow> list_ex (collides env) games"
  by (simp add: chartData_eq throws_timed)

section \<open>TimelineBuilder: invalid records\<close>

text \<open>
  C2, as the code has it. For a batch none of whose category names is a property of
  \<^verbatim>\<open>Object.prototype\<close>, the build returns a result in which a record whose start or end
  is not a valid time has no interval (the intervals of a bucket are those of the valid
  records of its category, each with the end the reduction resolved for it), and the
  number of intervals over all buckets is the number of valid records of the batch. A
  bucket is created at the first record of its category, before the times are checked:
  the keys of the result are the categories of all records of the batch, valid or not.
\<close>

theorem invalid_records_dropped:
  assumes "list_all (\<lambda>game. \<not> in_prototype (category_name game)) games"
  shows "\<exists>out. chartData env cc games = Inr out
     \<and> map fst (timed env 0 games) = games
     \<and> (\<forall>s \<in> set out. data s = List.map_filter (interval_of env cc)
                                   (filter (\<lambda>tg. category_name (fst tg) = name s) (timed env 0 games)))
     \<and> (\<forall>tg \<in> set (timed env 0 games). \<not> valid_record env tg \<longrightarrow> interval_of env cc tg = None)
     \<and> sum_list (map (\<lambda>s. length (data s)) out) = length (filter (valid_record env) (timed env 0 games))
     \<and> length (filter (valid_record env) (timed env 0 games)) = length (filter (valid_game env) games)
     \<and> set (map name out) = set (map category_name games)"
proof -
  define out where "out = map (bucket_of env cc (timed env 0 games))
    (key_order (first_occurrences (map category_name games)))"
  have "chartData env cc games = Inr out"
    unfolding out_def by (rule chartData_plain [OF assms])
  moreover have "map fst (timed env 0 games) = games" by simp
  moreover have "\<forall>s \<in> set out. data s = List.map_filter (interval_of env cc)
                                   (filter (\<lambda>tg. category_name (fst tg) = name s) (timed env 0 games))"
    by (auto simp: out_def bucket_of_def intervals_of_def)
  moreover have "\<forall>tg \<in> set (timed env 0 games). \<not> valid_record env tg \<longrightarrow> interval_of env cc tg = None"
    by (simp add: valid_record_interval [of env _ cc])
  moreover have "sum_list (map (\<lambda>s. length (data s)) out) = length (filter (valid_record env) (timed env 0 games))"
    unfolding out_def by (rule total_intervals)
  moreover have "length (filter (valid_record env) (timed env 0 games)) = length (filter (valid_game env) games)"
    by (rule count_valid_games)
  moreover have "set (map name out) = set (map category_name games)"
    by (simp add: out_def comp_def bucket_of_def set_key_order)
  ultimately show ?thesis by blast
qed

theorem invalid_records_dropped_witness:
  "list_all (\<lambda>game. \<not> in_prototype (category_name game)) [wednesday_game, ghost_game]
   \<and> (\<exists>out. chartData example_env Map.empty [wednesday_game, ghost_game] = Inr out
         \<and> sum_list (map (\<lambda>s. length (data s)) out) = 1
         \<and> set (map name out) = {js ''Combat'', js ''Puzzle''})"
proof -
  have plain: "list_all (\<lambda>game. \<not> in_prototype (category_name game)) [wednesday_game, ghost_game]"
    by code_simp
  have n: "length (filter (valid_record example_env) (timed example_env 0 [wednesday_game, ghost_game])) = 1"
    by code_simp
  have c: "map category_name [wednesday_game, ghost_game] = [js ''Combat'', js ''Puzzle'']"
    by code_simp
  from invalid_records_dropped [OF plain, of example_env Map.empty]
  obtain out where "chartData example_env Map.empty [wednesday_game, ghost_game] = Inr out"
    and "sum_list (map (\<lambda>s. length (data s)) out)
       = length (filter (valid_record example_env) (timed example_env 0 [wednesday_game, ghost_game]))"
    and "set (map name out) = set (map category_name [wednesday_game, ghost_game])"
    by blast
  with plain show ?thesis unfolding n c by auto
qed

text \<open>
  The bucket of a category is created also when none of its records is valid: the batch of
  a valid Combat record and an invalid Puzzle record has the key \<^verbatim>\<open>"Puzzle"\<close>, with an empty
  list.
\<close>

theorem bucket_before_validation:
  "chartData example_env Map.empty [wednesday_game, ghost_game]
     = Inr [\<lparr>name = js ''Combat'',
             data = [\<lparr>pt_x = js ''arena-1'', pt_y = (1704276000000, 1704281400000),
                      pt_color = js ''#CCCCCC''\<rparr>]\<rparr>,
            \<lparr>name = js ''Puzzle'', data = []\<rparr>]
   \<and> filter (valid_game example_env) (filter (\<lambda>game. category_name game = js ''Puzzle'') [wednesday_game, ghost_game]) = []"
  by code_simp

section \<open>TimelineBuilder: order\<close>

text \<open>
  C4, as the code has it. For a batch none of whose category names is a property of
  \<^verbatim>\<open>Object.prototype\<close>, the intervals of every bucket are those of the valid records of
  its category in the order of the batch, and the buckets come in the key order of the
  object: the categories that are array indices first, in ascending numeric order, then
  the others in the order of their first occurrence in the batch. When no category name
  is an array index, that is the order of first occurrence.
\<close>

theorem timeline_order:
  assumes "list_all (\<lambda>game. \<not> in_prototype (category_name game)) games"
  shows "chartData env cc games
       = Inr (map (bucket_of env cc (timed env 0 games))
                (key_order (first_occurrences (map category_name games))))
     \<and> map fst (timed env 0 games) = games
     \<and> name (bucket_of env cc tgs k) = k
     \<and> data (bucket_of env cc tgs k)
         = List.map_filter (interval_of env cc) (filter (\<lambda>tg. category_name (fst tg) = k) tgs)
     \<and> (list_all (\<lambda>k. \<not> is_array_index k) (map category_name games) \<longrightarrow>
          key_order (first_occurrences (map category_name games)) = first_occurrences (map category_name games))"
proof -
  have "key_order (first_occurrences (map category_name games)) = first_occurrences (map category_name games)"
    if "list_all (\<lambda>k. \<not> is_array_index k) (map category_name games)"
  proof (rule key_order_no_index)
    from that show "list_all (\<lambda>k. \<not> is_array_index k) (first_occurrences (map category_name games))"
      by (simp add: list_all_iff)
  qed
  with chartData_plain [OF assms, of env cc] show ?thesis
    by (simp add: bucket_of_def intervals_of_def)
qed

theorem timeline_order_witness:
  "list_all (\<lambda>game. \<not> in_prototype (category_name game)) [puzzle_game, wednesday_game, ghost_game]
   \<and> list_all (\<lambda>k. \<not> is_array_index k) (map category_name [puzzle_game, wednesday_game, ghost_game])
   \<and> chartData example_env Map.empty [puzzle_game, wednesday_game, ghost_game]
       = Inr (map (bucket_of example_env Map.empty (timed example_env 0 [puzzle_game, wednesday_game, ghost_game]))
                [js ''Puzzle'', js ''Combat''])"
proof -
  have plain: "list_all (\<lambda>game. \<not> in_prototype (category_name game)) [puzzle_game, wednesday_game, ghost_game]"
    by code_simp
  have letters: "list_all (\<lambda>k. \<not> is_array_index k) (map category_name [puzzle_game, wednesday_game, ghost_game])"
    by code_simp
  have first: "first_occurrences (map category_name [puzzle_game, wednesday_game, ghost_game])
      = [js ''Puzzle'', js ''Combat'']"
    by code_simp
  from timeline_order [OF plain, of example_env Map.empty] letters
  have "chartData example_env Map.empty [puzzle_game, wednesday_game, ghost_game]
       = Inr (map (bucket_of example_env Map.empty (timed example_env 0 [puzzle_game, wednesday_game, ghost_game]))
                (first_occurrences (map category_name [puzzle_game, wednesday_game, ghost_game])))"
    by simp
  with plain letters show ?thesis unfolding first by (intro conjI)
qed

text \<open>
  A category named by an array index is listed before one seen earlier: \<^verbatim>\<open>"Puzzle"\<close> comes
  first in the batch, \<^verbatim>\<open>"2048"\<close> comes first in the result.
\<close>

theorem index_keys_come_first:
  "chartData example_env Map.empty [puzzle_game, numbered_game]
     = Inr [\<lparr>name = js ''2048'',
             data = [\<lparr>pt_x = js ''tiles-1'', pt_y = (1704276000000, 1704281400000),
                      pt_color = js ''#CCCCCC''\<rparr>]\<rparr>,
            \<lparr>name = js ''Puzzle'',
             data = [\<lparr>pt_x = js ''maze-3'', pt_y = (1704276000000, 1704281400000),
                      pt_color = js ''#CCCCCC''\<rparr>]\<rparr>]
   \<and> first_occurrences (map category_name [puzzle_game, numbered_game]) = [js ''Puzzle'', js ''2048'']"
  by code_simp

section \<open>TimelineBuilder: ongoing sessions\<close>

lemma map_filter_member:
  "f u = Some v \<Longrightarrow> u \<in> set us \<Longrightarrow> v \<in> set (List.map_filter f us)"
  by (force simp: List.map_filter_def)

lemma timed_split:
  assumes "ongoing game"
  shows "timed env 0 (before @ game # after)
       = timed env 0 before
         @ (game, Some (Date_now env (length (filter ongoing before))))
         # timed env (Suc (length (filter ongoing before))) after"
  using assms by (simp add: timed_append endTime_ongoing)

lemma ongoing_valid:
  "ongoing game \<Longrightarrow> startTime env game \<noteq> None \<Longrightarrow> valid_game env game"
  by (simp add: valid_game_def valid_record_def endTime_ongoing)

lemma valid_key:
  assumes "\<not> list_ex (collides env) games" and "game \<in> set games" and "valid_game env game"
  shows "category_name game
     \<in> set (key_order (first_occurrences (filter (\<lambda>k. \<not> in_prototype k) (map category_name games))))"
proof -
  from assms have "\<not> in_prototype (category_name game)"
    by (auto simp: list_ex_iff collides_def)
  with assms(2) show ?thesis by (simp add: set_key_order)
qed

text \<open>
  C6, as the code has it. Take a record with a valid start time and no end time (\<^verbatim>\<open>null\<close>
  or the empty string), in a batch on which the build does not throw: no valid record of
  the batch has a category that is a property of \<^verbatim>\<open>Object.prototype\<close>. The record has an
  interval in the bucket of its category, with its instance name and the colour of its
  category, whose end is the reading of the clock made when the reduction reaches the
  record: the reading number \<open>n\<close> of the build when \<open>n\<close> records before it in the batch are
  ongoing. The end is at or after the start exactly when the start is not later than that
  reading.
\<close>

theorem ongoing_interval:
  assumes "\<not> list_ex (collides env) (before @ game # after)"
    and "startTime env game = Some st"
    and "ongoing game"
  shows "\<exists>out s p. chartData env cc (before @ game # after) = Inr out
     \<and> s \<in> set out \<and> name s = category_name game \<and> p \<in> set (data s)
     \<and> pt_x p = instance_name game
     \<and> pt_y p = (st, Date_now env (length (filter ongoing before)))
     \<and> pt_color p = color_of cc (category_name game)
     \<and> (fst (pt_y p) \<le> snd (pt_y p) \<longleftrightarrow> st \<le> Date_now env (length (filter ongoing before)))"
proof -
  define games where "games = before @ game # after"
  define reading where "reading = Date_now env (length (filter ongoing before))"
  define K where "K = key_order (first_occurrences (filter (\<lambda>k. \<not> in_prototype k) (map category_name games)))"
  define out where "out = map (bucket_of env cc (timed env 0 games)) K"
  define s where "s = bucket_of env cc (timed env 0 games) (category_name game)"
  define p where "p = \<lparr>pt_x = instance_name game, pt_y = (st, reading),
                        pt_color = color_of cc (category_name game)\<rparr>"
  have "chartData env cc games = Inr out"
    unfolding out_def K_def games_def by (rule chartData_completes [OF assms(1)])
  moreover have "category_name game \<in> set K"
    unfolding K_def games_def
    by (rule valid_key [OF assms(1)]) (simp_all add: ongoing_valid assms)
  then have "s \<in> set out" by (simp add: out_def s_def)
  moreover have "name s = category_name game" by (simp add: s_def bucket_of_def)
  moreover have "p \<in> set (data s)"
  proof -
    have "(game, Some reading) \<in> set (timed env 0 games)"
      unfolding games_def reading_def timed_split [OF assms(3)] by simp
    moreover have "interval_of env cc (game, Some reading) = Some p"
      using assms(2) by (simp add: interval_of_def p_def)
    ultimately show ?thesis
      unfolding s_def bucket_of_def intervals_of_def
      by (simp add: map_filter_member)
  qed
  moreover have "pt_x p = instance_name game" "pt_y p = (st, reading)"
    "pt_color p = color_of cc (category_name game)"
    "fst (pt_y p) \<le> snd (pt_y p) \<longleftrightarrow> st \<le> reading"
    by (simp_all add: p_def)
  ultimately show ?thesis unfolding games_def reading_def by blast
qed

text \<open>
  The third record of this batch has the empty string for its end and one ongoing record
  before it: its interval ends at the second reading of the clock.
\<close>

theorem ongoing_interval_witness:
  "\<not> list_ex (collides example_env) ([stray_game, wednesday_game] @ late_game # [])
   \<and> startTime example_env late_game = Some 1704281400000
   \<and> end_time late_game = Some []
   \<and> ongoing late_game
   \<and> length (filter ongoing [stray_game, wednesday_game]) = 1
   \<and> (\<exists>out s p. chartData example_env Map.empty ([stray_game, wednesday_game] @ late_game # []) = Inr out
         \<and> s \<in> set out \<and> name s = js ''Puzzle'' \<and> p \<in> set (data s)
         \<and> pt_y p = (1704281400000, 1704283200001) \<and> fst (pt_y p) \<le> snd (pt_y p))"
proof -
  have plain: "\<not> list_ex (collides example_env) ([stray_game, wednesday_game] @ late_game # [])"
    and start: "startTime example_env late_game = Some 1704281400000"
    and empty: "end_time late_game = Some []"
    and ongoing: "ongoing late_game"
    and earlier: "length (filter ongoing [stray_game, wednesday_game]) = 1"
    and now: "Date_now example_env 1 = 1704283200001"
    and cat: "category_name late_game = js ''Puzzle''"
    by code_simp+
  from ongoing_interval [OF plain start ongoing, of Map.empty]
  obtain out s p where "chartData example_env Map.empty ([stray_game, wednesday_game] @ late_game # []) = Inr out"
    and "s \<in> set out" and "name s = category_name late_game" and "p \<in> set (data s)"
    and "pt_y p = (1704281400000, Date_now example_env (length (filter ongoing [stray_game, wednesday_game])))"
    by blast
  then have "\<exists>out s p. chartData example_env Map.empty ([stray_game, wednesday_game] @ late_game # []) = Inr out
         \<and> s \<in> set out \<and> name s = js ''Puzzle'' \<and> p \<in> set (data s)
         \<and> pt_y p = (1704281400000, 1704283200001) \<and> fst (pt_y p) \<le> snd (pt_y p)"
    unfolding earlier now cat by (intro exI [of _ out] exI [of _ s] exI [of _ p]) simp
  with plain start empty ongoing earlier show ?thesis by (intro conjI)
qed

text \<open>
  A session that starts after the clock of the host (here on 7 January, the clock reading
  3 January) gets an interval that ends before it starts.
\<close>

theorem ongoing_interval_backwards:
  "end_time sunday_game = None
   \<and> startTime example_env sunday_game = Some 1704618000000
   \<and> Date_now example_env 0 = 1704283200000
   \<and> chartData example_env Map.empty [sunday_game]
       = Inr [\<lparr>name = js ''Combat'',
               data = [\<lparr>pt_x = js ''arena-2'', pt_y = (1704618000000, 1704283200000),
                        pt_color = js ''#CCCCCC''\<rparr>]\<rparr>]
   \<and> \<not> (1704618000000 \<le> Date_now example_env 0)"
  by code_simp

section \<open>TimelineBuilder: the colour of a category and the names of the prototype\<close>

text \<open>A category without a colour gets the fallback colour.\<close>

lemma fallback_color:
  "cc (category_name (fst tg)) = None \<Longrightarrow> interval_of env cc tg = Some p \<Longrightarrow> pt_color p = js ''#CCCCCC''"
  by (auto simp: interval_of_def color_of_def split: option.splits)

text \<open>
  C8. A valid record whose category is absent from the colour map should still get its
  interval, with the fallback colour, and no error. On the category \<^verbatim>\<open>"constructor"\<close> the
  code does otherwise: \<^verbatim>\<open>acc["constructor"]\<close> is the inherited function \<^verbatim>\<open>Object\<close>, so no
  bucket is created, its \<^verbatim>\<open>data\<close> is undefined, and \<^verbatim>\<open>push\<close> throws a TypeError that ends
  the whole build.
\<close>

theorem prototype_category_throws:
  "valid_game example_env constructor_game
   \<and> category_name constructor_game = js ''constructor''
   \<and> in_prototype (category_name constructor_game)
   \<and> chartData example_env Map.empty [constructor_game] = Inl TypeError
   \<and> chartData example_env Map.empty [wednesday_game, constructor_game, puzzle_game] = Inl TypeError"
  by code_simp

section \<open>Determinism\<close>

text \<open>
  What a build reads of its host: the parsing of dates, and as many readings of the clock
  as the batch has ongoing records.
\<close>

lemma valid_game_cong: "Date_parse env = Date_parse env' \<Longrightarrow> valid_game env game = valid_game env' game"
  by (cases "ongoing game")
    (simp_all add: valid_game_def valid_record_def endTime_ongoing endTime_ended startTime_def Date_getTime_def)

lemma interval_of_cong:
  "Date_parse env = Date_parse env' \<Longrightarrow> interval_of env cc tg = interval_of env' cc tg"
  by (simp add: interval_of_def startTime_def Date_getTime_def)

lemma valid_record_cong:
  "Date_parse env = Date_parse env' \<Longrightarrow> valid_record env tg = valid_record env' tg"
  by (simp add: valid_record_def startTime_def Date_getTime_def)

lemma collides_cong:
  "Date_parse env = Date_parse env' \<Longrightarrow> collides env game = collides env' game"
  unfolding collides_def using valid_game_cong [of env env' game] by simp

lemma count_valid_timed:
  "length (filter (\<lambda>tg. category_name (fst tg) = k \<and> valid_record env tg) (timed env calls games))
     = length (filter (\<lambda>game. category_name game = k \<and> valid_game env game) games)"
  by (induction games arbitrary: calls) (simp_all add: valid_record_timed)

lemma length_intervals_timed:
  "length (intervals_of env cc k (timed env calls games))
     = length (filter (\<lambda>game. category_name game = k \<and> valid_game env game) games)"
  by (simp only: length_intervals_of count_valid_timed)

lemma timed_cong:
  assumes "Date_parse env = Date_parse env'"
  shows "(\<And>i. i < length (filter ongoing games) \<Longrightarrow> Date_now env (calls + i) = Date_now env' (calls + i))
    \<Longrightarrow> timed env calls games = timed env' calls games"
proof (induction games arbitrary: calls)
  case Nil
  show ?case by simp
next
  case (Cons game games)
  show ?case
  proof (cases "ongoing game")
    case True
    from Cons.prems [of 0] True have now: "Date_now env calls = Date_now env' calls" by simp
    have "Date_now env (Suc calls + i) = Date_now env' (Suc calls + i)"
      if "i < length (filter ongoing games)" for i
      using Cons.prems [of "Suc i"] that True by simp
    then have "timed env (Suc calls) games = timed env' (Suc calls) games"
      by (rule Cons.IH)
    with now True show ?thesis by (simp add: endTime_ongoing)
  next
    case False
    have "Date_now env (calls + i) = Date_now env' (calls + i)"
      if "i < length (filter ongoing games)" for i
      using Cons.prems [of i] that False by simp
    then have "timed env calls games = timed env' calls games"
      by (rule Cons.IH)
    with False assms show ?thesis by (simp add: endTime_ended Date_getTime_def)
  qed
qed

lemma chartData_same_readings:
  assumes "Date_parse env = Date_parse env'"
    and "\<forall>n < length (filter ongoing games). Date_now env n = Date_now env' n"
  shows "chartData env cc games = chartData env' cc games"
proof -
  have i: "interval_of env cc = interval_of env' cc"
    using interval_of_cong [OF assms(1)] by (simp add: fun_eq_iff)
  have t: "throws env = throws env'"
    using valid_record_cong [OF assms(1)] by (simp add: fun_eq_iff throws_def)
  have b: "bucket_of env cc = bucket_of env' cc"
    by (simp add: fun_eq_iff bucket_of_def intervals_of_def i)
  have tm: "timed env 0 games = timed env' 0 games"
    using assms(2) by (intro timed_cong [OF assms(1)]) simp
  show ?thesis by (simp add: chartData_eq t b tm)
qed

lemma intervals_of_Cons:
  "intervals_of env cc k (tg # tgs)
     = (if category_name (fst tg) = k
        then (case interval_of env cc tg of None \<Rightarrow> [] | Some p \<Rightarrow> [p]) else [])
       @ intervals_of env cc k tgs"
  by (simp add: intervals_of_def split: option.splits)

lemma chartData_other_reading:
  assumes plain: "\<not> list_ex (collides env) (before @ game # after)"
    and on: "ongoing game"
    and start: "startTime env game \<noteq> None"
    and parse: "Date_parse env = Date_parse env'"
    and differ: "Date_now env (length (filter ongoing before)) \<noteq> Date_now env' (length (filter ongoing before))"
  shows "chartData env cc (before @ game # after) \<noteq> chartData env' cc (before @ game # after)"
proof
  define games where "games = before @ game # after"
  define j where "j = length (filter ongoing before)"
  define k where "k = category_name game"
  define K where "K = key_order (first_occurrences (filter (\<lambda>k. \<not> in_prototype k) (map category_name games)))"
  have plain': "\<not> list_ex (collides env') (before @ game # after)"
    using plain collides_cong [OF parse] by (simp add: list_ex_iff)
  assume "chartData env cc (before @ game # after) = chartData env' cc (before @ game # after)"
  then have "map (bucket_of env cc (timed env 0 games)) K = map (bucket_of env' cc (timed env' 0 games)) K"
    by (simp add: chartData_completes [OF plain] chartData_completes [OF plain'] games_def K_def)
  moreover have "k \<in> set K"
    unfolding K_def games_def k_def
    by (rule valid_key [OF plain]) (simp_all add: ongoing_valid on start)
  ultimately have "bucket_of env cc (timed env 0 games) k = bucket_of env' cc (timed env' 0 games) k"
    by (simp add: map_eq_conv)
  then have eq: "intervals_of env cc k (timed env 0 games) = intervals_of env' cc k (timed env' 0 games)"
    by (simp add: bucket_of_def)
  from start obtain st where st: "startTime env game = Some st" by auto
  with parse have st': "startTime env' game = Some st"
    by (simp add: startTime_def Date_getTime_def)
  have split: "intervals_of e cc k (timed e 0 games)
      = intervals_of e cc k (timed e 0 before)
        @ \<lparr>pt_x = instance_name game, pt_y = (st, Date_now e j), pt_color = color_of cc k\<rparr>
        # intervals_of e cc k (timed e (Suc j) after)"
    if "startTime e game = Some st" for e
    unfolding games_def timed_split [OF on] j_def [symmetric]
    using that
    by (simp add: intervals_of_append intervals_of_Cons interval_of_def k_def)
  have len: "length (intervals_of env cc k (timed env 0 before))
      = length (intervals_of env' cc k (timed env' 0 before))"
    by (simp only: length_intervals_timed valid_game_cong [OF parse])
  from eq have "intervals_of env cc k (timed env 0 before)
        @ \<lparr>pt_x = instance_name game, pt_y = (st, Date_now env j), pt_color = color_of cc k\<rparr>
        # intervals_of env cc k (timed env (Suc j) after)
      = intervals_of env' cc k (timed env' 0 before)
        @ \<lparr>pt_x = instance_name game, pt_y = (st, Date_now env' j), pt_color = color_of cc k\<rparr>
        # intervals_of env' cc k (timed env' (Suc j) after)"
    by (simp only: split [OF st] split [OF st'])
  with len have "Date_now env j = Date_now env' j" by simp
  with differ show False by (simp add: j_def)
qed

text \<open>
  The colour of a string is computed from the signed 32-bit value of its hash, and the
  colour map holds, for every category it was built from, the colour of that category.
\<close>

lemma generateColorFromString_hash:
  "ToInt32 (foldl hash_step 0 str) = ToInt32 (foldl hash_step 0 str') \<Longrightarrow>
   generateColorFromString str = generateColorFromString str'"
  by (simp add: generateColorFromString_def js_and_def js_sar_def Let_def)

lemma map_of_update_prop:
  "map_of (update_prop obj k v) k' = (if k' = k \<and> k \<in> fst ` set obj then Some v else map_of obj k')"
proof (induction obj)
  case Nil
  show ?case by (simp add: update_prop_def)
next
  case (Cons p obj)
  have unfold: "update_prop (p # obj) k v = (if fst p = k then (k, v) else p) # update_prop obj k v"
    by (simp add: update_prop_def)
  show ?case
  proof (cases "fst p = k")
    case True
    then show ?thesis
      unfolding unfold using Cons.IH by (cases p) (auto simp: map_of_eq_None_iff)
  next
    case False
    then show ?thesis
      unfolding unfold using Cons.IH by (cases p) (force simp: image_iff)
  qed
qed

lemma map_of_create_prop:
  assumes "k \<notin> fst ` set obj"
  shows "map_of (create_prop obj k v) k' = (if k' = k then Some v else map_of obj k')"
proof -
  from assms have none: "map_of obj k = None" by (simp add: map_of_eq_None_iff)
  have "map_of (create_prop obj k v) k' = (case map_of obj k' of None \<Rightarrow> map_of [(k, v)] k' | Some w \<Rightarrow> Some w)"
    by (simp add: create_prop_def map_add_def split: option.splits)
  with none show ?thesis by (cases "k' = k") (simp_all split: option.splits)
qed

lemma map_of_set_prop:
  "map_of (set_prop obj k v) k' = (if k' = k \<and> k \<noteq> js ''__proto__'' then Some v else map_of obj k')"
  by (simp add: set_prop_def map_of_update_prop map_of_create_prop)

lemma map_of_foldl_set_prop:
  "map_of (foldl (\<lambda>acc c. set_prop acc c (g c)) acc cs) k
     = (if k \<in> set cs \<and> k \<noteq> js ''__proto__'' then Some (g k) else map_of acc k)"
  by (induction cs arbitrary: acc) (auto simp: map_of_set_prop)

lemma fetchCategories_colors_lookup:
  "map_of (fetchCategories_colors categories) category
     = (if category \<in> set categories \<and> category \<noteq> js ''__proto__''
        then Some (generateColorFromString category) else None)"
  by (simp add: fetchCategories_colors_def map_of_foldl_set_prop)

text \<open>
  C9, as the code has it. The colour of a string is a function of the string alone, read
  through its hash as a signed 32-bit integer: strings with the same hash get the same
  colour. The colour map that \<^verbatim>\<open>fetchCategories\<close> builds gives every category of its list,
  but for \<^verbatim>\<open>"__proto__"\<close>, the colour of its name, whatever the other categories of the
  list and their order. A build of the timeline is a function of the batch, the colour
  map, the host's parsing of dates and the readings of the clock it makes, one for every
  ongoing record: two builds of a batch agree when the hosts parse dates alike and their
  clocks return the same values at these readings, and so whenever no record of the batch
  is ongoing. Two builds that complete differ when an ongoing record with a valid start is
  given different readings. The weekly series do not depend on the clock at all.
\<close>

theorem build_deterministic:
  "(ToInt32 (foldl hash_step 0 str) = ToInt32 (foldl hash_step 0 str')
      \<longrightarrow> generateColorFromString str = generateColorFromString str')
   \<and> (category \<in> set categories \<and> category \<noteq> js ''__proto__''
      \<longrightarrow> map_of (fetchCategories_colors categories) category = Some (generateColorFromString category))
   \<and> (Date_parse env = Date_parse env'
        \<and> (\<forall>n < length (filter ongoing games). Date_now env n = Date_now env' n)
      \<longrightarrow> chartData env cc games = chartData env' cc games)
   \<and> (\<not> list_ex (collides env) (before @ game # after)
        \<and> ongoing game \<and> startTime env game \<noteq> None
        \<and> Date_parse env = Date_parse env'
        \<and> Date_now env (length (filter ongoing before)) \<noteq> Date_now env' (length (filter ongoing before))
      \<longrightarrow> chartData env cc (before @ game # after) \<noteq> chartData env' cc (before @ game # after))
   \<and> (Date_parse env = Date_parse env' \<and> LocalTZA env = LocalTZA env'
      \<longrightarrow> generateChartSeries env categories week = generateChartSeries env' categories week)"
proof (intro conjI impI)
  assume "ToInt32 (foldl hash_step 0 str) = ToInt32 (foldl hash_step 0 str')"
  then show "generateColorFromString str = generateColorFromString str'"
    by (rule generateColorFromString_hash)
next
  assume "category \<in> set categories \<and> category \<noteq> js ''__proto__''"
  then show "map_of (fetchCategories_colors categories) category = Some (generateColorFromString category)"
    by (simp add: fetchCategories_colors_lookup)
next
  assume "Date_parse env = Date_parse env'
        \<and> (\<forall>n < length (filter ongoing games). Date_now env n = Date_now env' n)"
  then show "chartData env cc games = chartData env' cc games"
    by (intro chartData_same_readings) simp_all
next
  assume "\<not> list_ex (collides env) (before @ game # after)
        \<and> ongoing game \<and> startTime env game \<noteq> None
        \<and> Date_parse env = Date_parse env'
        \<and> Date_now env (length (filter ongoing before)) \<noteq> Date_now env' (length (filter ongoing before))"
  then show "chartData env cc (before @ game # after) \<noteq> chartData env' cc (before @ game # after)"
    by (intro chartData_other_reading) simp_all
next
  assume "Date_parse env = Date_parse env' \<and> LocalTZA env = LocalTZA env'"
  then have "Date_getDay env s = Date_getDay env' s" for s
    by (simp add: Date_getDay_def split: option.splits)
  then have "count_game env categories = count_game env' categories"
    by (simp add: fun_eq_iff count_game_def)
  then show "generateChartSeries env categories week = generateChartSeries env' categories week"
    by (simp add: generateChartSeries_def weekly_counts_def)
qed

text \<open>
  On the example host and one a minute later: the map of the list B, A, B holds the colour
  of A; a batch of two ended sessions is built alike on both; the batch of an ongoing
  session is not; the weekly series are the same.
\<close>

theorem build_deterministic_witness:
  "map_of (fetchCategories_colors [js ''B'', js ''A'', js ''B'']) (js ''A'') = Some (js ''#4e0000'')
   \<and> Date_parse example_env = Date_parse later_env
   \<and> length (filter ongoing [wednesday_game, puzzle_game]) = 0
   \<and> chartData later_env Map.empty [wednesday_game, puzzle_game]
       = Inr [\<lparr>name = js ''Combat'',
               data = [\<lparr>pt_x = js ''arena-1'', pt_y = (1704276000000, 1704281400000),
                        pt_color = js ''#CCCCCC''\<rparr>]\<rparr>,
              \<lparr>name = js ''Puzzle'',
               data = [\<lparr>pt_x = js ''maze-3'', pt_y = (1704276000000, 1704281400000),
                        pt_color = js ''#CCCCCC''\<rparr>]\<rparr>]
   \<and> ongoing sunday_game
   \<and> Date_now example_env 0 \<noteq> Date_now later_env 0
   \<and> chartData example_env Map.empty ([] @ sunday_game # [])
       \<noteq> chartData later_env Map.empty ([] @ sunday_game # [])
   \<and> LocalTZA example_env = LocalTZA later_env
   \<and> generateChartSeries later_env [js ''Combat''] [wednesday_game]
       = [\<lparr>name = js ''Combat'', data = \<lparr>slots = [0, 0, 1, 0, 0, 0, 0], NaN_prop = False\<rparr>\<rparr>]"
proof -
  note d = build_deterministic [where str = "js ''A''" and str' = "js ''A''"
      and category = "js ''A''" and categories = "[js ''B'', js ''A'', js ''B'']"
      and env = example_env and env' = later_env and cc = Map.empty
      and games = "[wednesday_game, puzzle_game]"
      and before = "[]" and game = sunday_game and after = "[]"
      and week = "[wednesday_game]"]
  note w = build_deterministic [where str = "js ''A''" and str' = "js ''A''"
      and category = "js ''Combat''" and categories = "[js ''Combat'']"
      and env = example_env and env' = later_env and cc = Map.empty
      and games = "[]" and before = "[]" and game = sunday_game and after = "[]"
      and week = "[wednesday_game]"]
  have colour: "generateColorFromString (js ''A'') = js ''#4e0000''"
    and mem: "js ''A'' \<in> set [js ''B'', js ''A'', js ''B''] \<and> js ''A'' \<noteq> js ''__proto__''"
    and ended: "length (filter ongoing [wednesday_game, puzzle_game]) = 0"
    and plain: "\<not> list_ex (collides example_env) ([] @ sunday_game # [])"
    and on: "ongoing sunday_game"
    and start: "startTime example_env sunday_game \<noteq> None"
    by code_simp+
  have parse: "Date_parse example_env = Date_parse later_env"
    and tza: "LocalTZA example_env = LocalTZA later_env"
    and now: "Date_now example_env (length (filter ongoing ([]::GameData list))) \<noteq> Date_now later_env (length (filter ongoing ([]::GameData list)))"
    by (simp_all add: later_env_def example_env_def)
  have first: "chartData example_env Map.empty [wednesday_game, puzzle_game]
       = Inr [\<lparr>name = js ''Combat'',
               data = [\<lparr>pt_x = js ''arena-1'', pt_y = (1704276000000, 1704281400000),
                        pt_color = js ''#CCCCCC''\<rparr>]\<rparr>,
              \<lparr>name = js ''Puzzle'',
               data = [\<lparr>pt_x = js ''maze-3'', pt_y = (1704276000000, 1704281400000),
                        pt_color = js ''#CCCCCC''\<rparr>]\<rparr>]"
    and weekly: "generateChartSeries example_env [js ''Combat''] [wednesday_game]
       = [\<lparr>name = js ''Combat'', data = \<lparr>slots = [0, 0, 1, 0, 0, 0, 0], NaN_prop = False\<rparr>\<rparr>]"
    by code_simp+
  from d mem colour
  have c1: "map_of (fetchCategories_colors [js ''B'', js ''A'', js ''B'']) (js ''A'') = Some (js ''#4e0000'')"
    by simp
  from d parse ended
  have c2: "chartData example_env Map.empty [wednesday_game, puzzle_game]
      = chartData later_env Map.empty [wednesday_game, puzzle_game]"
    by simp
  from d plain on start parse now
  have c3: "chartData example_env Map.empty ([] @ sunday_game # [])
       \<noteq> chartData later_env Map.empty ([] @ sunday_game # [])"
    by blast
  from w parse tza
  have c4: "generateChartSeries example_env [js ''Combat''] [wednesday_game]
      = generateChartSeries later_env [js ''Combat''] [wednesday_game]"
    by blast
  from now have now0: "Date_now example_env 0 \<noteq> Date_now later_env 0" by simp
  from c1 parse ended c2 first on now0 c3 tza c4 weekly show ?thesis by simp
qed

text \<open>
  The same batch, with an ongoing session, built a minute later: the results differ in
  the end of its interval.
\<close>

theorem clock_changes_build:
  "chartData example_env Map.empty [sunday_game]
     = Inr [\<lparr>name = js ''Combat'',
             data = [\<lparr>pt_x = js ''arena-2'', pt_y = (1704618000000, 1704283200000),
                      pt_color = js ''#CCCCCC''\<rparr>]\<rparr>]
   \<and> chartData later_env Map.empty [sunday_game]
     = Inr [\<lparr>name = js ''Combat'',
             data = [\<lparr>pt_x = js ''arena-2'', pt_y = (1704618000000, 1704283260000),
                      pt_color = js ''#CCCCCC''\<rparr>]\<rparr>]
   \<and> chartData example_env Map.empty [sunday_game] \<noteq> chartData later_env Map.empty [sunday_game]"
  by code_simp

end
